theory Spec2Isabelle
  imports Complex_Main "HOL-Library.AList"
begin

section \<open>Strings and the JSON escape tables\<close>

text \<open>
  A Python \<open>str\<close> is a sequence of Unicode code points; \<open>len\<close> counts code points and
  \<open>ord\<close> may exceed 255. A string is therefore a list of code points, and Python's unbounded
  integers are \<open>int\<close>.
\<close>

type_synonym str = "nat list"

text \<open>
  \<open>ESCAPE_ASCII\<close> and \<open>ESCAPE_DCT\<close> are imported by \<open>payloads.py\<close> from the standard
  library's \<open>json.encoder\<close>. The regular expression \<open>([\\"]|[^\ -~])\<close> matches exactly one
  character: a backslash, a double quote, or anything outside the printable ASCII range
  \<open>0x20 .. 0x7E\<close>. The dictionary holds the two-character escapes and \<open>\u00XX\<close> for the other
  control characters below \<open>0x20\<close>.
\<close>

definition ESCAPE_ASCII :: "nat \<Rightarrow> bool" where
  "ESCAPE_ASCII c = (c = 0x5C \<or> c = 0x22 \<or> c < 0x20 \<or> 0x7E < c)"

definition hex_digit :: "nat \<Rightarrow> nat" where
  "hex_digit d = (if d < 10 then 0x30 + d else 0x61 + (d - 10))"

definition ESCAPE_DCT :: "nat \<Rightarrow> str option" where
  "ESCAPE_DCT c =
     (if c = 0x5C then Some [0x5C, 0x5C]
      else if c = 0x22 then Some [0x5C, 0x22]
      else if c = 0x08 then Some [0x5C, 0x62]
      else if c = 0x0C then Some [0x5C, 0x66]
      else if c = 0x0A then Some [0x5C, 0x6E]
      else if c = 0x0D then Some [0x5C, 0x72]
      else if c = 0x09 then Some [0x5C, 0x74]
      else if c < 0x20 then Some [0x5C, 0x75, 0x30, 0x30, hex_digit (c div 16), hex_digit (c mod 16)]
      else None)"

section \<open>JsonTruncText\<close>

record JsonTruncText =
  text_of :: str
  truncated :: bool
  added_bytes :: int

text \<open>\<open>JsonTruncText.__init__\<close>: the private \<open>_added_bytes\<close> is clamped at zero.\<close>

definition JsonTruncText_init :: "str \<Rightarrow> bool \<Rightarrow> int \<Rightarrow> JsonTruncText" where
  "JsonTruncText_init t tr added = \<lparr>text_of = t, truncated = tr, added_bytes = max 0 added\<rparr>"

definition byte_size :: "JsonTruncText \<Rightarrow> int" where
  "byte_size j = int (length (text_of j)) + added_bytes j"

text \<open>\<open>json_char_len\<close>: the \<open>KeyError\<close> branch is the \<open>None\<close> case of the lookup.\<close>

definition json_char_len :: "nat \<Rightarrow> int" where
  "json_char_len c =
     (case ESCAPE_DCT c of
        Some e \<Rightarrow> int (length e)
      | None \<Rightarrow> (if c < 0x10000 then 6 else 12))"

text \<open>
  The \<open>for match in ESCAPE_ASCII.finditer(s)\<close> loop of \<open>JsonTruncText.truncate\<close>. The scan
  walks the candidate \<open>s\<close> from position \<open>pos\<close>; \<open>rest\<close> is what is left to scan. Every match is one
  character wide, so its span is \<open>(pos, pos + 1)\<close>; characters that do not match are skipped
  without any test.
\<close>

fun truncate_loop :: "int \<Rightarrow> int \<Rightarrow> str \<Rightarrow> str \<Rightarrow> int \<Rightarrow> int \<Rightarrow> JsonTruncText" where
  "truncate_loop limit s_init_len s [] pos added =
     JsonTruncText_init s (int (length s) < s_init_len) added"
| "truncate_loop limit s_init_len s (c # rest) pos added =
     (if ESCAPE_ASCII c then
        (let start = pos;
             end_pos = pos + 1;
             markup = json_char_len c - 1;
             added' = added + markup
         in if end_pos + added' > limit then
              JsonTruncText_init (take (nat start) s) True (added' - markup)
            else if end_pos + added' = limit then
              (let s' = take (nat end_pos) s
               in JsonTruncText_init s' (int (length s') < s_init_len) added')
            else truncate_loop limit s_init_len s rest (pos + 1) added')
      else truncate_loop limit s_init_len s rest (pos + 1) added)"

text \<open>
  The class method \<open>JsonTruncText.truncate\<close>; the bare name is taken by the record package.
\<close>

definition truncate_text :: "str \<Rightarrow> int \<Rightarrow> JsonTruncText" where
  "truncate_text s limit =
     (let limit' = max limit 0;
          s_init_len = int (length s);
          s' = take (nat limit') s
      in truncate_loop limit' s_init_len s' s' 0 0)"


section \<open>Python values, errors and the external collaborators\<close>

text \<open>String literals of the source, written as Isabelle strings and read as code points.\<close>

definition py :: "string \<Rightarrow> str" where
  "py cs = map of_char cs"

text \<open>
  The payloads are \<open>TypedDict\<close>s, that is, plain dictionaries at run time: insertion-ordered
  association lists whose values are the JSON-serialisable Python values. Floats and datetimes
  are only passed through to the encoder and are kept as real numbers.
\<close>

datatype pyval =
    PNone
  | PBool bool
  | PInt int
  | PFloat real
  | PDateTime real
  | PStr str
  | PTrunc JsonTruncText
  | PList "pyval list"
  | PDict "(str \<times> pyval) list"

type_synonym pydict = "(str \<times> pyval) list"

text \<open>
  The exceptions of the code. Every \<open>raise\<close> of \<open>payloads.py\<close> is a \<open>ValueError\<close>; the
  message tells them apart. The library calls raise subclasses of \<open>ValueError\<close>, which an
  \<open>except ValueError\<close> catches as well: \<open>int\<close> on a text that is no number,
  \<open>json.loads\<close> on a text that is not JSON (\<open>json.JSONDecodeError\<close>) and
  \<open>str.encode("utf-8")\<close> on a text with a lone surrogate (\<open>UnicodeEncodeError\<close>).
  \<open>AttributeError\<close> is what \<open>d.items()\<close> raises when \<open>payload_to_camel_case\<close> is handed
  something that is not a mapping.
\<close>

datatype error_message =
    NoMessage
  | PayloadTooBig int
  | AttemptNotAssigned int
  | DeliveryIncomplete int
  | InvalidLiteral str
  | JSONDecodeError str
  | UnicodeEncodeError

datatype error = ValueError error_message | AttributeError

text \<open>
  \<open>GraphQLDocument\<close> comes from the GraphQL library; the code reads its \<open>document_string\<close>
  and hands its \<open>document_ast\<close> to \<open>get_operation_ast\<close>. The syntax tree is kept as the list of
  its operation definitions (name and operation kind).
\<close>

type_synonym document_ast = "(str option \<times> str) list"

record GraphQLDocument =
  document_string :: str
  document_ast :: document_ast

record GraphQLOperationResponse =
  op_name :: "str option"
  op_query :: "GraphQLDocument option"
  op_variables :: "pydict option"
  op_result :: "pydict option"
  op_result_invalid :: bool

text \<open>
  What the code calls but this repository's sources under study do not define: the JSON
  encoder and decoder of the standard library (\<open>json_dumps indent obj\<close> stands for
  \<open>json.dumps(obj, indent=indent, ensure_ascii=True, cls=CustomJsonEncoder)\<close>), the helpers of
  graphene and graphql, the redaction module, and the values read from the clock and the random
  generator. They are parameters of every function below.
\<close>

record externals =
  json_dumps :: "int option \<Rightarrow> pyval \<Rightarrow> str"
  json_loads :: "str \<Rightarrow> pyval option"
  py_int :: "str \<Rightarrow> int option"
  to_camel_case :: "str \<Rightarrow> str"
  to_global_id :: "str \<Rightarrow> int \<Rightarrow> str"
  get_operation_ast :: "document_ast \<Rightarrow> str option \<Rightarrow> str option"
  hide_sensitive_headers :: "(str \<times> str) list \<Rightarrow> (str \<times> str) list"
  anonymize_gql_operation_response :: "GraphQLOperationResponse \<Rightarrow> GraphQLOperationResponse"
  anonymize_event_payload :: "str option \<Rightarrow> str \<Rightarrow> pyval \<Rightarrow> pyval"
  WebhookEventSyncType_ALL :: "str list"
  uuid4 :: str
  timezone_now :: real

text \<open>\<open>json.loads(s)\<close>: the decoded value, or \<open>JSONDecodeError\<close> when the decoder has none.\<close>

definition py_json_loads :: "externals \<Rightarrow> str \<Rightarrow> error + pyval" where
  "py_json_loads ext s =
     (case json_loads ext s of
        None \<Rightarrow> Inl (ValueError (JSONDecodeError s))
      | Some v \<Rightarrow> Inr v)"

definition json_serialize :: "externals \<Rightarrow> pyval \<Rightarrow> bool \<Rightarrow> str" where
  "json_serialize ext obj pretty =
     (if pretty then json_dumps ext (Some 2) obj else json_dumps ext None obj)"

section \<open>Sub-operation payloads\<close>

definition TRUNC_PLACEHOLDER :: JsonTruncText where
  "TRUNC_PLACEHOLDER = JsonTruncText_init [] False 0"

definition EMPTY_TRUNC :: JsonTruncText where
  "EMPTY_TRUNC = JsonTruncText_init [] True 0"

definition GQL_OPERATION_PLACEHOLDER :: pydict where
  "GQL_OPERATION_PLACEHOLDER =
     [(py ''name'', PTrunc TRUNC_PLACEHOLDER),
      (py ''operation_type'', PStr (py ''subscription'')),
      (py ''query'', PTrunc TRUNC_PLACEHOLDER),
      (py ''result'', PTrunc TRUNC_PLACEHOLDER),
      (py ''result_invalid'', PBool False)]"

definition GQL_OPERATION_PLACEHOLDER_SIZE :: "externals \<Rightarrow> int" where
  "GQL_OPERATION_PLACEHOLDER_SIZE ext =
     int (length (json_serialize ext (PDict GQL_OPERATION_PLACEHOLDER) False))"

text \<open>
  \<open>serialize_gql_operation_result\<close>. An \<open>if x:\<close> on an optional string or dictionary is false
  for \<open>None\<close> and for the empty value; on an optional document it is false for \<open>None\<close> only.
\<close>

definition serialize_gql_operation_result ::
  "externals \<Rightarrow> GraphQLOperationResponse \<Rightarrow> int \<Rightarrow> error + (pydict \<times> int)" where
  "serialize_gql_operation_result ext operation bytes_limit =
     (let bytes_limit = bytes_limit - GQL_OPERATION_PLACEHOLDER_SIZE ext
      in if bytes_limit < 0 then Inl (ValueError NoMessage)
         else
           (let operation = anonymize_gql_operation_response ext operation;
                payload = [(py ''name'', PNone),
                           (py ''operation_type'', PNone),
                           (py ''query'', PNone),
                           (py ''result'', PNone),
                           (py ''result_invalid'', PBool (op_result_invalid operation))];
                (payload, bytes_limit) =
                  (case op_name operation of
                     None \<Rightarrow> (payload, bytes_limit)
                   | Some n \<Rightarrow>
                       if n = [] then (payload, bytes_limit)
                       else (let t = truncate_text n (bytes_limit div 3)
                             in (AList.update (py ''name'') (PTrunc t) payload,
                                 bytes_limit - byte_size t)));
                (payload, bytes_limit) =
                  (case op_query operation of
                     None \<Rightarrow> (payload, bytes_limit)
                   | Some q \<Rightarrow>
                       (let t = truncate_text (document_string q) (bytes_limit div 2);
                            payload = AList.update (py ''query'') (PTrunc t) payload;
                            bytes_limit = bytes_limit - byte_size t
                        in case get_operation_ast ext (document_ast q) (op_name operation) of
                             None \<Rightarrow> (payload, bytes_limit)
                           | Some operation_kind \<Rightarrow>
                               (AList.update (py ''operation_type'') (PStr operation_kind) payload,
                                bytes_limit)));
                (payload, bytes_limit) =
                  (case op_result operation of
                     None \<Rightarrow> (payload, bytes_limit)
                   | Some r \<Rightarrow>
                       if r = [] then (payload, bytes_limit)
                       else (let t = truncate_text (json_serialize ext (PDict r) True) bytes_limit
                             in (AList.update (py ''result'') (PTrunc t) payload,
                                 bytes_limit - byte_size t)))
            in Inr (payload, max 0 bytes_limit)))"

text \<open>
  The loop of \<open>serialize_gql_operation_results\<close> over \<open>enumerate(operations)\<close>; \<open>n\<close> is
  \<open>len(operations)\<close>. An exception of the call leaves the loop.
\<close>

fun serialize_gql_operation_results_loop ::
  "externals \<Rightarrow> int \<Rightarrow> (nat \<times> GraphQLOperationResponse) list \<Rightarrow> pydict list \<Rightarrow> int
     \<Rightarrow> error + pydict list" where
  "serialize_gql_operation_results_loop ext n [] payloads bytes_limit = Inr payloads"
| "serialize_gql_operation_results_loop ext n ((i, operation) # rest) payloads bytes_limit =
     (let payload_limit = bytes_limit div (n - int i)
      in case serialize_gql_operation_result ext operation payload_limit of
           Inl e \<Rightarrow> Inl e
         | Inr (payload, left_bytes) \<Rightarrow>
             serialize_gql_operation_results_loop ext n rest (payloads @ [payload])
               (bytes_limit - (payload_limit - left_bytes)))"

definition serialize_gql_operation_results ::
  "externals \<Rightarrow> GraphQLOperationResponse list \<Rightarrow> int \<Rightarrow> error + pydict list" where
  "serialize_gql_operation_results ext operations bytes_limit =
     (if bytes_limit - int (length operations) * GQL_OPERATION_PLACEHOLDER_SIZE ext < 0
      then Inl (ValueError NoMessage)
      else serialize_gql_operation_results_loop ext (int (length operations))
             (enumerate 0 operations) [] bytes_limit)"

text \<open>
  The budgeting rule in the words of the specification (section 4.2, step 4): fail when
  \<open>remaining < count * placeholderCost\<close>; otherwise go through the operations left to right,
  give the first of the \<open>count\<close> operations still to do \<open>remaining div count\<close> bytes, and carry
  what it did not use forward into \<open>remaining\<close> for the others.
\<close>

fun spec_budget_operations ::
  "externals \<Rightarrow> GraphQLOperationResponse list \<Rightarrow> int \<Rightarrow> error + pydict list" where
  "spec_budget_operations ext [] remaining = Inr []"
| "spec_budget_operations ext (operation # others) remaining =
     (let count = int (length (operation # others));
          slice = remaining div count
      in case serialize_gql_operation_result ext operation slice of
           Inl e \<Rightarrow> Inl e
         | Inr (payload, unused) \<Rightarrow>
             (case spec_budget_operations ext others (remaining - slice + unused) of
                Inl e \<Rightarrow> Inl e
              | Inr payloads \<Rightarrow> Inr (payload # payloads)))"

definition spec_sub_operation_budgeting ::
  "externals \<Rightarrow> GraphQLOperationResponse list \<Rightarrow> int \<Rightarrow> error + pydict list" where
  "spec_sub_operation_budgeting ext operations remaining =
     (if remaining < int (length operations) * GQL_OPERATION_PLACEHOLDER_SIZE ext
      then Inl (ValueError NoMessage)
      else spec_budget_operations ext operations remaining)"

section \<open>Sample collaborators for concrete evaluation\<close>

text \<open>
  A fixed choice of the external collaborators, used where a theorem is run on a concrete input:
  an encoder whose output is eight characters long whatever the value, a decoder that knows the
  empty object and the empty array only, the identity for the renaming and redaction helpers,
  and constants for the rest.
\<close>

definition sample_externals :: externals where
  "sample_externals =
     \<lparr>json_dumps = (\<lambda>indent obj. replicate 8 0x78),
      json_loads = (\<lambda>s. if s = [0x7B, 0x7D] then Some (PDict [])
                        else if s = [0x5B, 0x5D] then Some (PList []) else None),
      py_int = (\<lambda>s. Some 0),
      to_camel_case = (\<lambda>s. s),
      to_global_id = (\<lambda>kind pk. kind),
      get_operation_ast = (\<lambda>ast n. None),
      hide_sensitive_headers = (\<lambda>h. h),
      anonymize_gql_operation_response = (\<lambda>operation. operation),
      anonymize_event_payload = (\<lambda>q t p. p),
      WebhookEventSyncType_ALL = [],
      uuid4 = [],
      timezone_now = 0\<rparr>"

definition sample_operation :: GraphQLOperationResponse where
  "sample_operation =
     \<lparr>op_name = Some [0x61, 0x62], op_query = None, op_variables = None, op_result = None,
      op_result_invalid = False\<rparr>"

section \<open>Camel-casing a payload\<close>

text \<open>
  \<open>payload_to_camel_case\<close>: \<open>camel_case_items\<close> is the \<open>for k, v in d.items()\<close> loop with the
  dictionary \<open>data\<close> built so far, \<open>camel_case_list\<close> the list comprehension. A value that is
  not a mapping has no \<open>items\<close>.
\<close>

fun payload_to_camel_case :: "externals \<Rightarrow> pyval \<Rightarrow> error + pydict"
  and camel_case_items :: "externals \<Rightarrow> pydict \<Rightarrow> pydict \<Rightarrow> error + pydict"
  and camel_case_list :: "externals \<Rightarrow> pyval list \<Rightarrow> error + pyval list" where
  "payload_to_camel_case ext (PDict d) = camel_case_items ext d []"
| "payload_to_camel_case ext PNone = Inl AttributeError"
| "payload_to_camel_case ext (PBool b) = Inl AttributeError"
| "payload_to_camel_case ext (PInt i) = Inl AttributeError"
| "payload_to_camel_case ext (PFloat x) = Inl AttributeError"
| "payload_to_camel_case ext (PDateTime x) = Inl AttributeError"
| "payload_to_camel_case ext (PStr s) = Inl AttributeError"
| "payload_to_camel_case ext (PTrunc t) = Inl AttributeError"
| "payload_to_camel_case ext (PList xs) = Inl AttributeError"
| "camel_case_items ext [] data = Inr data"
| "camel_case_items ext ((k, PDict m) # rest) data =
     (case payload_to_camel_case ext (PDict m) of
        Inl e \<Rightarrow> Inl e
      | Inr v \<Rightarrow> camel_case_items ext rest (AList.update (to_camel_case ext k) (PDict v) data))"
| "camel_case_items ext ((k, PList xs) # rest) data =
     (case camel_case_list ext xs of
        Inl e \<Rightarrow> Inl e
      | Inr v \<Rightarrow> camel_case_items ext rest (AList.update (to_camel_case ext k) (PList v) data))"
| "camel_case_items ext ((k, v) # rest) data =
     camel_case_items ext rest (AList.update (to_camel_case ext k) v data)"
| "camel_case_list ext [] = Inr []"
| "camel_case_list ext (i # rest) =
     (case payload_to_camel_case ext i of
        Inl e \<Rightarrow> Inl e
      | Inr v \<Rightarrow>
          (case camel_case_list ext rest of
             Inl e \<Rightarrow> Inl e
           | Inr vs \<Rightarrow> Inr (PDict v # vs)))"

text \<open>Values that \<open>payload_to_camel_case\<close> copies as they are.\<close>

fun is_scalar :: "pyval \<Rightarrow> bool" where
  "is_scalar (PDict m) = False"
| "is_scalar (PList xs) = False"
| "is_scalar v = True"

section \<open>The API-call payload\<close>

text \<open>
  What \<open>generate_api_call_payload\<close> reads from Django's request and response objects and from
  the application attached to the request.
\<close>

record App =
  app_pk :: int
  app_name :: str

record HttpRequest =
  request_method :: "str option"
  request_absolute_uri :: str
  request_time :: "real option"
  request_headers :: "(str \<times> str) list"
  request_app :: "App option"

record HttpResponse =
  response_headers :: "(str \<times> str) list"
  response_status_code :: int
  response_content :: "nat list"

definition headers_dict :: "(str \<times> str) list \<Rightarrow> pyval" where
  "headers_dict h = PDict (map (\<lambda>(k, v). (k, PStr v)) h)"

text \<open>\<open>int(request.headers.get("Content-Length") or 0)\<close>; \<open>int\<close> raises on a malformed number.\<close>

definition request_content_length :: "externals \<Rightarrow> HttpRequest \<Rightarrow> error + int" where
  "request_content_length ext request =
     (case map_of (request_headers request) (py ''Content-Length'') of
        None \<Rightarrow> Inr 0
      | Some v \<Rightarrow>
          if v = [] then Inr 0
          else (case py_int ext v of
                  None \<Rightarrow> Inl (ValueError (InvalidLiteral v))
                | Some n \<Rightarrow> Inr n))"

text \<open>
  The \<open>RequestPayload(...)\<close>, \<open>ResponsePayload(...)\<close> and \<open>AppPayload(...)\<close> literals and the
  \<open>GraphQLOperationsPayload(...)\<close> literal with its empty list of operations.
\<close>

definition api_call_request_payload :: "externals \<Rightarrow> HttpRequest \<Rightarrow> int \<Rightarrow> pydict" where
  "api_call_request_payload ext request content_length =
     [(py ''id'', PStr (uuid4 ext)),
      (py ''method'', PStr (case request_method request of None \<Rightarrow> [] | Some m \<Rightarrow> m)),
      (py ''url'', PStr (request_absolute_uri request)),
      (py ''time'',
       PFloat (case request_time request of None \<Rightarrow> timezone_now ext | Some t \<Rightarrow> t)),
      (py ''headers'', headers_dict (hide_sensitive_headers ext (request_headers request))),
      (py ''content_length'', PInt content_length)]"

definition api_call_response_payload :: "externals \<Rightarrow> HttpResponse \<Rightarrow> pydict" where
  "api_call_response_payload ext response =
     [(py ''headers'', headers_dict (hide_sensitive_headers ext (response_headers response))),
      (py ''status_code'', PInt (response_status_code response)),
      (py ''content_length'', PInt (int (length (response_content response))))]"

definition app_payload :: "externals \<Rightarrow> App \<Rightarrow> pydict" where
  "app_payload ext app =
     [(py ''id'', PStr (to_global_id ext (py ''App'') (app_pk app))),
      (py ''name'', PStr (app_name app))]"

definition api_call_gql_operations :: "GraphQLOperationResponse list \<Rightarrow> pydict" where
  "api_call_gql_operations gql_operations =
     [(py ''count'', PInt (int (length gql_operations))), (py ''operations'', PList [])]"

text \<open>
  The payload as built before the first serialisation: the \<open>ApiCallPayload(...)\<close> literal, then
  the \<open>app\<close> entry when the request carries an application.
\<close>

definition api_call_initial_payload ::
  "externals \<Rightarrow> HttpRequest \<Rightarrow> HttpResponse \<Rightarrow> GraphQLOperationResponse list
     \<Rightarrow> error + pydict" where
  "api_call_initial_payload ext request response gql_operations =
     (case request_content_length ext request of
        Inl e \<Rightarrow> Inl e
      | Inr content_length \<Rightarrow>
          (let payload =
                 [(py ''event_type'', PStr (py ''observability_api_call'')),
                  (py ''request'', PDict (api_call_request_payload ext request content_length)),
                  (py ''response'', PDict (api_call_response_payload ext response)),
                  (py ''app'', PNone),
                  (py ''gql_operations'', PDict (api_call_gql_operations gql_operations))]
           in case request_app request of
                None \<Rightarrow> Inr payload
              | Some app \<Rightarrow>
                  Inr (AList.update (py ''app'') (PDict (app_payload ext app)) payload)))"

text \<open>
  The payload after the \<open>try\<close> block: \<open>payload["gql_operations"]["operations"]\<close> is assigned
  when the sub-operations could be serialised; a \<open>ValueError\<close> of that step is swallowed.
\<close>

definition api_call_payload ::
  "externals \<Rightarrow> HttpRequest \<Rightarrow> HttpResponse \<Rightarrow> GraphQLOperationResponse list \<Rightarrow> int
     \<Rightarrow> error + pydict" where
  "api_call_payload ext request response gql_operations bytes_limit =
     (case api_call_initial_payload ext request response gql_operations of
        Inl e \<Rightarrow> Inl e
      | Inr payload \<Rightarrow>
          (let initial_dump = json_serialize ext (PDict payload) False;
               remaining_bytes = bytes_limit - int (length initial_dump)
           in if remaining_bytes < 0 then Inl (ValueError (PayloadTooBig bytes_limit))
              else
                (case serialize_gql_operation_results ext gql_operations remaining_bytes of
                   Inr operations \<Rightarrow>
                     Inr (AList.update (py ''gql_operations'')
                            (PDict (AList.update (py ''operations'') (PList (map PDict operations))
                                      (api_call_gql_operations gql_operations)))
                            payload)
                 | Inl (ValueError m) \<Rightarrow> Inr payload
                 | Inl AttributeError \<Rightarrow> Inl AttributeError)))"

definition generate_api_call_payload ::
  "externals \<Rightarrow> HttpRequest \<Rightarrow> HttpResponse \<Rightarrow> GraphQLOperationResponse list \<Rightarrow> int
     \<Rightarrow> error + str" where
  "generate_api_call_payload ext request response gql_operations bytes_limit =
     (case api_call_payload ext request response gql_operations bytes_limit of
        Inl e \<Rightarrow> Inl e
      | Inr payload \<Rightarrow>
          (case payload_to_camel_case ext (PDict payload) of
             Inl e \<Rightarrow> Inl e
           | Inr document \<Rightarrow> Inr (json_serialize ext (PDict document) False)))"

section \<open>Sample requests for concrete evaluation\<close>

definition sample_request :: HttpRequest where
  "sample_request =
     \<lparr>request_method = Some (py ''POST''), request_absolute_uri = py ''/graphql/'',
      request_time = None, request_headers = [], request_app = None\<rparr>"

definition sample_response :: HttpResponse where
  "sample_response =
     \<lparr>response_headers = [], response_status_code = 200, response_content = []\<rparr>"


section \<open>The delivery-attempt payload\<close>

text \<open>
  The fields that \<open>generate_event_delivery_attempt_payload\<close> reads from the database records:
  an attempt, its delivery, the delivery's payload and webhook, the webhook's application.
\<close>

record Webhook =
  webhook_pk :: int
  webhook_name :: "str option"
  webhook_target_url :: str
  webhook_subscription_query :: "str option"
  webhook_secret_key :: "str option"
  webhook_app :: App

record EventPayload =
  event_payload_payload :: str

record EventDelivery =
  delivery_pk :: int
  delivery_status :: str
  delivery_event_type :: str
  delivery_payload :: "EventPayload option"
  delivery_webhook :: "Webhook option"

record EventDeliveryAttempt =
  attempt_pk :: int
  attempt_delivery :: "EventDelivery option"
  attempt_created_at :: real
  attempt_duration :: "real option"
  attempt_status :: str
  attempt_response :: "str option"
  attempt_request_headers :: "str option"
  attempt_response_headers :: "str option"
  attempt_response_status_code :: "int option"

text \<open>\<open>x or other\<close> on an optional string: \<open>None\<close> and the empty string give \<open>other\<close>.\<close>

definition str_or :: "str option \<Rightarrow> str \<Rightarrow> str" where
  "str_or x other = (case x of None \<Rightarrow> other | Some s \<Rightarrow> if s = [] then other else s)"

text \<open>
  \<open>len(s.encode("utf-8"))\<close>: the number of bytes of each code point. A surrogate code point
  (\<open>U+D800\<close> to \<open>U+DFFF\<close>) has no UTF-8 encoding and \<open>encode\<close> raises
  \<open>UnicodeEncodeError\<close>.
\<close>

definition utf8_length :: "str \<Rightarrow> error + int" where
  "utf8_length s =
     (if list_ex (\<lambda>c. 0xD800 \<le> c \<and> c \<le> 0xDFFF) s then Inl (ValueError UnicodeEncodeError)
      else Inr (sum_list (map (\<lambda>c. if c < 0x80 then 1 else if c < 0x800 then 2
                                     else if c < 0x10000 then 3 else (4::int)) s)))"

definition opt_val :: "('a \<Rightarrow> pyval) \<Rightarrow> 'a option \<Rightarrow> pyval" where
  "opt_val f x = (case x of None \<Rightarrow> PNone | Some v \<Rightarrow> f v)"

text \<open>
  The parts of the \<open>EventDeliveryAttemptPayload(...)\<close> literal. The three truncated texts start
  as \<open>TRUNC_PLACEHOLDER\<close> and are assigned after the first serialisation. The decoded headers
  and the encoded length of the response body are computed once, while the literal is
  evaluated (see \<open>attempt_decoded\<close> below), and are arguments here.
\<close>

definition attempt_response_payload :: "EventDeliveryAttempt \<Rightarrow> pyval \<Rightarrow> int \<Rightarrow> pydict" where
  "attempt_response_payload attempt headers content_length =
     [(py ''headers'', headers),
      (py ''content_length'', PInt content_length),
      (py ''body'', PTrunc TRUNC_PLACEHOLDER),
      (py ''status_code'', opt_val PInt (attempt_response_status_code attempt))]"

definition event_delivery_data_payload :: "EventPayload \<Rightarrow> pydict" where
  "event_delivery_data_payload payload =
     [(py ''content_length'', PInt (int (length (event_payload_payload payload)))),
      (py ''body'', PTrunc TRUNC_PLACEHOLDER)]"

definition event_delivery_payload ::
  "externals \<Rightarrow> EventDelivery \<Rightarrow> pydict \<Rightarrow> pydict" where
  "event_delivery_payload ext delivery data_payload =
     [(py ''id'', PStr (to_global_id ext (py ''EventDelivery'') (delivery_pk delivery))),
      (py ''status'', PStr (delivery_status delivery)),
      (py ''event_type'', PStr (delivery_event_type delivery)),
      (py ''event_sync'', PBool (delivery_event_type delivery \<in> set (WebhookEventSyncType_ALL ext))),
      (py ''payload'', PDict data_payload)]"

definition webhook_payload :: "externals \<Rightarrow> Webhook \<Rightarrow> pydict" where
  "webhook_payload ext webhook =
     [(py ''id'', PStr (to_global_id ext (py ''Webhook'') (webhook_pk webhook))),
      (py ''name'', PStr (str_or (webhook_name webhook) [])),
      (py ''target_url'', PStr (webhook_target_url webhook)),
      (py ''subscription_query'', PTrunc TRUNC_PLACEHOLDER)]"

definition attempt_data ::
  "externals \<Rightarrow> EventDeliveryAttempt \<Rightarrow> real option \<Rightarrow> pyval \<Rightarrow> pydict \<Rightarrow> pydict
     \<Rightarrow> pydict \<Rightarrow> Webhook \<Rightarrow> pydict" where
  "attempt_data ext attempt next_retry req_headers response event_delivery webhook_part
       webhook =
     [(py ''event_type'', PStr (py ''observability_event_delivery_attempt'')),
      (py ''event_delivery_attempt'',
       PDict
         [(py ''id'', PStr (to_global_id ext (py ''EventDeliveryAttempt'') (attempt_pk attempt))),
          (py ''time'', PDateTime (attempt_created_at attempt)),
          (py ''duration'', opt_val PFloat (attempt_duration attempt)),
          (py ''status'', PStr (attempt_status attempt)),
          (py ''next_retry'', opt_val PDateTime next_retry)]),
      (py ''request'', PDict [(py ''headers'', req_headers)]),
      (py ''response'', PDict response),
      (py ''event_delivery'', PDict event_delivery),
      (py ''webhook'', PDict webhook_part),
      (py ''app'', PDict (app_payload ext (webhook_app webhook)))]"

text \<open>
  The three steps of the literal that can raise, in the order in which Python evaluates them:
  \<open>json.loads\<close> on the request headers, \<open>json.loads\<close> on the response headers and
  \<open>response_body.encode("utf-8")\<close>. The result is the decoded request headers and the
  \<open>response\<close> part.
\<close>

definition attempt_decoded ::
  "externals \<Rightarrow> EventDeliveryAttempt \<Rightarrow> error + (pyval \<times> pydict)" where
  "attempt_decoded ext attempt =
     (case py_json_loads ext (str_or (attempt_request_headers attempt) (py ''{}'')) of
        Inl e \<Rightarrow> Inl e
      | Inr req_headers \<Rightarrow>
          (case py_json_loads ext (str_or (attempt_response_headers attempt) (py ''{}'')) of
             Inl e \<Rightarrow> Inl e
           | Inr resp_headers \<Rightarrow>
               (case utf8_length (str_or (attempt_response attempt) []) of
                  Inl e \<Rightarrow> Inl e
                | Inr content_length \<Rightarrow>
                    Inr (req_headers,
                         attempt_response_payload attempt resp_headers content_length))))"

text \<open>The payload measured by the first serialisation, with the three placeholders.\<close>

definition attempt_initial_data ::
  "externals \<Rightarrow> EventDeliveryAttempt \<Rightarrow> real option \<Rightarrow> pyval \<Rightarrow> pydict \<Rightarrow> EventDelivery
     \<Rightarrow> EventPayload \<Rightarrow> Webhook \<Rightarrow> pydict" where
  "attempt_initial_data ext attempt next_retry req_headers response delivery payload
       webhook =
     attempt_data ext attempt next_retry req_headers response
       (event_delivery_payload ext delivery (event_delivery_data_payload payload))
       (webhook_payload ext webhook) webhook"

text \<open>
  \<open>generate_event_delivery_attempt_payload\<close>. A database record is a true value, so
  \<open>not attempt.delivery\<close> holds exactly when there is none. The assignments to
  \<open>data["response"]["body"]\<close>, \<open>data["webhook"]["subscription_query"]\<close> and
  \<open>data["event_delivery"]["payload"]["body"]\<close> replace the placeholders in the parts. The
  literal is evaluated, and may raise, before the size is tested; \<open>json.loads\<close> on the
  delivery's payload comes after the test and the two truncations.
\<close>

definition generate_event_delivery_attempt_payload ::
  "externals \<Rightarrow> EventDeliveryAttempt \<Rightarrow> real option \<Rightarrow> int \<Rightarrow> error + str" where
  "generate_event_delivery_attempt_payload ext attempt next_retry bytes_limit =
     (case attempt_delivery attempt of
        None \<Rightarrow> Inl (ValueError (AttemptNotAssigned (attempt_pk attempt)))
      | Some delivery \<Rightarrow>
          (case (delivery_payload delivery, delivery_webhook delivery) of
             (Some payload, Some webhook) \<Rightarrow>
               (let response_body = str_or (attempt_response attempt) []
                in case attempt_decoded ext attempt of
                     Inl e \<Rightarrow> Inl e
                   | Inr (req_headers, response) \<Rightarrow>
               (let data = attempt_initial_data ext attempt next_retry req_headers response
                             delivery payload webhook;
                    initial_dump = json_serialize ext (PDict data) False;
                    remaining_bytes = bytes_limit - int (length initial_dump)
                in if remaining_bytes < 0 then Inl (ValueError (PayloadTooBig bytes_limit))
                   else
                     (let trunc_resp_body = truncate_text response_body (remaining_bytes div 3);
                          remaining_bytes = remaining_bytes - byte_size trunc_resp_body;
                          response =
                            AList.update (py ''body'') (PTrunc trunc_resp_body) response;
                          subscription_query = webhook_subscription_query webhook;
                          webhook_part =
                            AList.update (py ''subscription_query'') PNone
                              (webhook_payload ext webhook);
                          (webhook_part, remaining_bytes) =
                            (case subscription_query of
                               None \<Rightarrow> (webhook_part, remaining_bytes)
                             | Some q \<Rightarrow>
                                 if q = [] then (webhook_part, remaining_bytes)
                                 else
                                   (let trunc_subscription_query =
                                          truncate_text q (remaining_bytes div 2)
                                    in (AList.update (py ''subscription_query'')
                                          (PTrunc trunc_subscription_query) webhook_part,
                                        remaining_bytes - byte_size trunc_subscription_query)))
                      in case py_json_loads ext (event_payload_payload payload) of
                           Inl e \<Rightarrow> Inl e
                         | Inr loaded \<Rightarrow>
                     (let anonymized =
                            anonymize_event_payload ext subscription_query
                              (delivery_event_type delivery) loaded;
                          trunc_payload =
                            truncate_text (json_serialize ext anonymized True) remaining_bytes;
                          event_delivery =
                            event_delivery_payload ext delivery
                              (AList.update (py ''body'') (PTrunc trunc_payload)
                                 (event_delivery_data_payload payload));
                          data = attempt_data ext attempt next_retry req_headers response
                                   event_delivery webhook_part webhook
                      in case payload_to_camel_case ext (PDict data) of
                           Inl e \<Rightarrow> Inl e
                         | Inr document \<Rightarrow> Inr (json_serialize ext (PDict document) False)))))
           | _ \<Rightarrow> Inl (ValueError (DeliveryIncomplete (delivery_pk delivery)))))"

definition sample_app :: App where
  "sample_app = \<lparr>app_pk = 1, app_name = py ''app''\<rparr>"

definition sample_webhook :: Webhook where
  "sample_webhook =
     \<lparr>webhook_pk = 7, webhook_name = None, webhook_target_url = py ''http://localhost'',
      webhook_subscription_query = None, webhook_secret_key = None, webhook_app = sample_app\<rparr>"

definition sample_delivery :: EventDelivery where
  "sample_delivery =
     \<lparr>delivery_pk = 5, delivery_status = py ''pending'', delivery_event_type = py ''order_created'',
      delivery_payload = Some \<lparr>event_payload_payload = py ''[]''\<rparr>,
      delivery_webhook = Some sample_webhook\<rparr>"

definition sample_attempt :: EventDeliveryAttempt where
  "sample_attempt =
     \<lparr>attempt_pk = 3, attempt_delivery = Some sample_delivery, attempt_created_at = 0,
      attempt_duration = None, attempt_status = py ''failed'', attempt_response = None,
      attempt_request_headers = None, attempt_response_headers = None,
      attempt_response_status_code = None\<rparr>"

section \<open>Reporting: state, gate cache and buffer\<close>

text \<open>
  \<open>utils.py\<close> works on module-level state, on the context-local \<open>_context\<close>, on Django's
  cache and settings and on the event buffer. All of it is one explicit state. Accumulators are
  objects with identity: they live in a store and are named by references, so that two scope
  entries can be said to yield the same object.
\<close>

type_synonym ref = nat

record Settings =
  OBSERVABILITY_ACTIVE :: bool
  OBSERVABILITY_REPORT_ALL_API_CALLS :: bool
  OBSERVABILITY_MAX_PAYLOAD_SIZE :: int

record WebhookData =
  webhook_data_id :: int
  saleor_domain :: str
  target_url :: str
  secret_key :: "str option"

record ApiCall =
  apicall_gql_operations :: "ref list"
  apicall_response :: "HttpResponse option"
  apicall_reported :: bool
  apicall_request :: HttpRequest

datatype log_message =
    ResponseNotProvided
  | EventDropped
  | AttemptNotAssignedToDelivery int

text \<open>
  What a run does that an observer can see, in order: the calls of \<open>logger.error\<close>, the answers
  of the gate, the calls of the payload generator with their outcome, the events put into the
  buffer, and the calls of \<open>report\<close> made by the exit of an API-call scope.
\<close>

datatype effect =
    LogError log_message
  | GateCheck bool
  | BuildPayload "error + str"
  | PutEvent str
  | Finalize ref

record world =
  settings :: Settings
  site_domain :: str
  buffer_name :: str
  registry :: "Webhook list"
  shared_cache :: "(WebhookData list \<times> real) option"
  wall_clock :: real
  active_webhooks_exists_cache :: "str \<rightharpoonup> bool \<times> real"
  monotonic :: real
  context_api_call :: "ref option"
  context_gql_operation :: "ref option"
  api_call_store :: "ref \<rightharpoonup> ApiCall"
  gql_operation_store :: "ref \<rightharpoonup> GraphQLOperationResponse"
  next_ref :: ref
  buffer :: "str list"
  effects :: "effect list"

definition emit :: "effect \<Rightarrow> world \<Rightarrow> world" where
  "emit e w = w\<lparr>effects := effects w @ [e]\<rparr>"

definition CACHE_TIMEOUT :: real where
  "CACHE_TIMEOUT = 120"

text \<open>
  Django's cache, as far as the code uses it: the one entry under \<open>WEBHOOKS_KEY\<close>.

  Modelled from the spec: the cache backend is not among the sources; the shared cache is
  \<open>Get(key) -> value|miss\<close> and \<open>Set(key, value, ttl)\<close>. The entry is kept with the time at
  which it expires, read on the clock \<open>wall_clock\<close> of the cache; a missing entry and an
  expired one are both a miss.
\<close>

definition cache_get :: "world \<Rightarrow> WebhookData list option" where
  "cache_get w =
     (case shared_cache w of
        None \<Rightarrow> None
      | Some (cached, expires) \<Rightarrow> if wall_clock w < expires then Some cached else None)"

definition cache_set :: "WebhookData list \<Rightarrow> real \<Rightarrow> world \<Rightarrow> world" where
  "cache_set cached timeout w = w\<lparr>shared_cache := Some (cached, wall_clock w + timeout)\<rparr>"

text \<open>
  \<open>get_observability_webhooks\<close>: \<open>registry\<close> is what \<open>get_webhooks_for_event\<close> returns.
\<close>

definition get_observability_webhooks :: "world \<Rightarrow> WebhookData list \<times> world" where
  "get_observability_webhooks w =
     (case cache_get w of
        Some webhooks_data \<Rightarrow> (webhooks_data, w)
      | None \<Rightarrow>
          (let webhooks_data =
                 map (\<lambda>webhook.
                        \<lparr>webhook_data_id = webhook_pk webhook,
                         saleor_domain = site_domain w,
                         target_url = webhook_target_url webhook,
                         secret_key = webhook_secret_key webhook\<rparr>)
                   (registry w)
           in (webhooks_data, cache_set webhooks_data CACHE_TIMEOUT w)))"

text \<open>\<open>active_webhooks_exists\<close>; the answer is also recorded as a \<open>GateCheck\<close>.\<close>

definition active_webhooks_exists :: "real \<Rightarrow> world \<Rightarrow> bool \<times> world" where
  "active_webhooks_exists timeout w =
     (let key = buffer_name w;
          cached = active_webhooks_exists_cache w key;
          fresh = (case cached of
                     None \<Rightarrow> None
                   | Some (is_active, check_time) \<Rightarrow>
                       if monotonic w - check_time \<le> timeout then Some is_active else None)
      in case fresh of
           Some is_active \<Rightarrow> (is_active, emit (GateCheck is_active) w)
         | None \<Rightarrow>
             (let (webhooks_data, w) = get_observability_webhooks w;
                  is_active = (webhooks_data \<noteq> []);
                  w = w\<lparr>active_webhooks_exists_cache :=
                         (active_webhooks_exists_cache w)(key \<mapsto> (is_active, monotonic w))\<rparr>
              in (is_active, emit (GateCheck is_active) w)))"

definition active_webhooks_exists_clear_cache :: "world \<Rightarrow> world" where
  "active_webhooks_exists_clear_cache w = w\<lparr>active_webhooks_exists_cache := Map.empty\<rparr>"

text \<open>
  \<open>put_to_buffer\<close>: the argument is the outcome of calling \<open>generate_payload()\<close> inside the
  \<open>try\<close>; an exception is logged and goes no further.

  Modelled from the spec: \<open>buffers.py\<close> is not among the sources; the external buffer is
  \<open>Put(bufferName, serializedEvent)\<close>, here the list \<open>buffer\<close> that \<open>put_event\<close> extends.
\<close>

definition put_to_buffer :: "error + str \<Rightarrow> world \<Rightarrow> world" where
  "put_to_buffer generated w =
     (case generated of
        Inr payload \<Rightarrow>
          emit (PutEvent payload) ((emit (BuildPayload generated) w)\<lparr>buffer := buffer w @ [payload]\<rparr>)
      | Inl e \<Rightarrow> emit (LogError EventDropped) (emit (BuildPayload generated) w))"

text \<open>\<open>ApiCall.__init__\<close> and \<open>ApiCall.report\<close>, on the accumulator named by \<open>self\<close>.\<close>

definition ApiCall_init :: "HttpRequest \<Rightarrow> ApiCall" where
  "ApiCall_init request =
     \<lparr>apicall_gql_operations = [], apicall_response = None, apicall_reported = False,
      apicall_request = request\<rparr>"

definition ApiCall_report :: "externals \<Rightarrow> ref \<Rightarrow> world \<Rightarrow> world" where
  "ApiCall_report ext self w =
     (case api_call_store w self of
        None \<Rightarrow> w
      | Some api_call \<Rightarrow>
          if apicall_reported api_call \<or> \<not> OBSERVABILITY_ACTIVE (settings w) then w
          else
            (let only_app_api_call = \<not> OBSERVABILITY_REPORT_ALL_API_CALLS (settings w)
             in if only_app_api_call \<and> request_app (apicall_request api_call) = None then w
                else
                  (case apicall_response api_call of
                     None \<Rightarrow> emit (LogError ResponseNotProvided) w
                   | Some response \<Rightarrow>
                       (let w = w\<lparr>api_call_store :=
                                    (api_call_store w)
                                      (self \<mapsto> api_call\<lparr>apicall_reported := True\<rparr>)\<rparr>;
                            (is_active, w) = active_webhooks_exists CACHE_TIMEOUT w
                        in if is_active then
                             put_to_buffer
                               (generate_api_call_payload ext (apicall_request api_call) response
                                  (List.map_filter (gql_operation_store w)
                                     (apicall_gql_operations api_call))
                                  (OBSERVABILITY_MAX_PAYLOAD_SIZE (settings w)))
                               w
                           else w))))"

text \<open>\<open>report_event_delivery_attempt\<close>.\<close>

definition report_event_delivery_attempt ::
  "externals \<Rightarrow> EventDeliveryAttempt \<Rightarrow> real option \<Rightarrow> world \<Rightarrow> world" where
  "report_event_delivery_attempt ext attempt next_retry w =
     (if \<not> OBSERVABILITY_ACTIVE (settings w) then w
      else
        (let w = (if attempt_delivery attempt = None
                  then emit (LogError (AttemptNotAssignedToDelivery (attempt_pk attempt))) w
                  else w);
             (is_active, w) = active_webhooks_exists CACHE_TIMEOUT w
         in if is_active then
              put_to_buffer
                (generate_event_delivery_attempt_payload ext attempt next_retry
                   (OBSERVABILITY_MAX_PAYLOAD_SIZE (settings w)))
                w
            else w))"

section \<open>Reporting: the re-entrant scopes\<close>

text \<open>
  The context managers \<open>report_api_call\<close> and \<open>report_gql_operation\<close>, each split at its
  \<open>yield\<close>: the entry returns the accumulator and the flag \<open>root\<close>, the exit takes the flag.
  Reading or deleting an attribute that \<open>_context\<close> does not have raises \<open>AttributeError\<close>.
\<close>

definition report_api_call_enter :: "HttpRequest \<Rightarrow> world \<Rightarrow> (ref \<times> bool) \<times> world" where
  "report_api_call_enter request w =
     (case context_api_call w of
        None \<Rightarrow>
          (let r = next_ref w
           in ((r, True),
               w\<lparr>api_call_store := (api_call_store w)(r \<mapsto> ApiCall_init request),
                 next_ref := Suc r,
                 context_api_call := Some r\<rparr>))
      | Some r \<Rightarrow> ((r, False), w))"

definition report_api_call_exit :: "externals \<Rightarrow> bool \<Rightarrow> world \<Rightarrow> error + world" where
  "report_api_call_exit ext is_root w =
     (if is_root then
        (case context_api_call w of
           None \<Rightarrow> Inl AttributeError
         | Some r \<Rightarrow> Inr ((ApiCall_report ext r (emit (Finalize r) w))\<lparr>context_api_call := None\<rparr>))
      else Inr w)"

definition GraphQLOperationResponse_init :: GraphQLOperationResponse where
  "GraphQLOperationResponse_init =
     \<lparr>op_name = None, op_query = None, op_variables = None, op_result = None,
      op_result_invalid = False\<rparr>"

definition report_gql_operation_enter :: "world \<Rightarrow> (ref \<times> bool) \<times> world" where
  "report_gql_operation_enter w =
     (case context_gql_operation w of
        None \<Rightarrow>
          (let r = next_ref w
           in ((r, True),
               w\<lparr>gql_operation_store := (gql_operation_store w)(r \<mapsto> GraphQLOperationResponse_init),
                 next_ref := Suc r,
                 context_gql_operation := Some r\<rparr>))
      | Some r \<Rightarrow> ((r, False), w))"

definition report_gql_operation_exit :: "bool \<Rightarrow> world \<Rightarrow> error + world" where
  "report_gql_operation_exit is_root w =
     (if is_root then
        (case context_gql_operation w of
           None \<Rightarrow> Inl AttributeError
         | Some operation \<Rightarrow>
             (let w = (case context_api_call w of
                         None \<Rightarrow> w
                       | Some r \<Rightarrow>
                           (case api_call_store w r of
                              None \<Rightarrow> w
                            | Some api_call \<Rightarrow>
                                w\<lparr>api_call_store :=
                                    (api_call_store w)
                                      (r \<mapsto> api_call\<lparr>apicall_gql_operations :=
                                                        apicall_gql_operations api_call
                                                          @ [operation]\<rparr>)\<rparr>))
              in Inr (w\<lparr>context_gql_operation := None\<rparr>)))
      else Inr w)"

text \<open>
  Code that uses the scopes: \<open>with\<close> statements nested in and following one another, code
  that raises, and \<open>try: ... except Exception: pass\<close> around a block. An API-call scope may
  end by attaching a response to the accumulator it was given, as \<open>report_view\<close> does. The
  generators have no \<open>finally\<close>: when the body of a \<open>with\<close> raises, the code after the
  \<open>yield\<close> is not run and the exception goes on to the caller. A run returns the exception
  that ended it, if any, the accumulators that the scope entries yielded, in order, and the
  state it left.
\<close>

datatype block =
    Skip
  | Raise error
  | Try block
  | Seq block block
  | ApiCallScope HttpRequest block "HttpResponse option"
  | GqlOperationScope block

datatype yielded = ApiCallYielded ref bool | GqlOperationYielded ref bool

definition set_response :: "ref \<Rightarrow> HttpResponse option \<Rightarrow> world \<Rightarrow> world" where
  "set_response r response w =
     (case (response, api_call_store w r) of
        (Some resp, Some api_call) \<Rightarrow>
          w\<lparr>api_call_store := (api_call_store w)(r \<mapsto> api_call\<lparr>apicall_response := Some resp\<rparr>)\<rparr>
      | _ \<Rightarrow> w)"

fun run :: "externals \<Rightarrow> block \<Rightarrow> world \<Rightarrow> error option \<times> yielded list \<times> world" where
  "run ext Skip w = (None, [], w)"
| "run ext (Raise e) w = (Some e, [], w)"
| "run ext (Try body) w = (case run ext body w of (raised, ys, w1) \<Rightarrow> (None, ys, w1))"
| "run ext (Seq a b) w =
     (case run ext a w of
        (Some e, ys, w1) \<Rightarrow> (Some e, ys, w1)
      | (None, ys, w1) \<Rightarrow>
          (case run ext b w1 of (raised, zs, w2) \<Rightarrow> (raised, ys @ zs, w2)))"
| "run ext (ApiCallScope request body response) w =
     (let ((api_call, is_root), w1) = report_api_call_enter request w
      in case run ext body w1 of
           (Some e, ys, w2) \<Rightarrow> (Some e, ApiCallYielded api_call is_root # ys, w2)
         | (None, ys, w2) \<Rightarrow>
             (let w2 = set_response api_call response w2
              in case report_api_call_exit ext is_root w2 of
                   Inl e \<Rightarrow> (Some e, ApiCallYielded api_call is_root # ys, w2)
                 | Inr w3 \<Rightarrow> (None, ApiCallYielded api_call is_root # ys, w3)))"
| "run ext (GqlOperationScope body) w =
     (let ((operation, is_root), w1) = report_gql_operation_enter w
      in case run ext body w1 of
           (Some e, ys, w2) \<Rightarrow> (Some e, GqlOperationYielded operation is_root # ys, w2)
         | (None, ys, w2) \<Rightarrow>
             (case report_gql_operation_exit is_root w2 of
                Inl e \<Rightarrow> (Some e, GqlOperationYielded operation is_root # ys, w2)
              | Inr w3 \<Rightarrow> (None, GqlOperationYielded operation is_root # ys, w3)))"



fun finalized :: "effect list \<Rightarrow> ref list" where
  "finalized [] = []"
| "finalized (Finalize r # es) = r # finalized es"
| "finalized (e # es) = finalized es"

definition gql_operations_of :: "world \<Rightarrow> ref \<Rightarrow> ref list" where
  "gql_operations_of w r =
     (case api_call_store w r of None \<Rightarrow> [] | Some api_call \<Rightarrow> apicall_gql_operations api_call)"

section \<open>Reporting: sequences of events\<close>

text \<open>
  Events reported one after the other, with time passing in between: the monotonic clock of
  the process and the clock of the cache move forward together.
\<close>

datatype step =
    ReportApiCall ref
  | ReportEventDeliveryAttempt EventDeliveryAttempt "real option"
  | Elapse real

definition elapse :: "real \<Rightarrow> world \<Rightarrow> world" where
  "elapse seconds w =
     w\<lparr>monotonic := monotonic w + max 0 seconds, wall_clock := wall_clock w + max 0 seconds\<rparr>"

fun report_events :: "externals \<Rightarrow> step list \<Rightarrow> world \<Rightarrow> world" where
  "report_events ext [] w = w"
| "report_events ext (ReportApiCall self # steps) w =
     report_events ext steps (ApiCall_report ext self w)"
| "report_events ext (ReportEventDeliveryAttempt attempt next_retry # steps) w =
     report_events ext steps (report_event_delivery_attempt ext attempt next_retry w)"
| "report_events ext (Elapse seconds # steps) w =
     report_events ext steps (elapse seconds w)"

text \<open>
  The endpoint list is empty, the registered one and the cached one: no receiver is registered,
  and the list that the shared cache holds, if it holds one that has not expired, is empty.
  And: the process-local gate cache holds an entry for the buffer key that is within its
  lifetime and says that receivers exist.
\<close>

definition endpoint_list_empty :: "world \<Rightarrow> bool" where
  "endpoint_list_empty w =
     (registry w = []
      \<and> (case cache_get w of Some webhooks_data \<Rightarrow> webhooks_data = [] | None \<Rightarrow> True))"

definition gate_entry_fresh_and_active :: "world \<Rightarrow> bool" where
  "gate_entry_fresh_and_active w =
     (case active_webhooks_exists_cache w (buffer_name w) of
        None \<Rightarrow> False
      | Some (is_active, check_time) \<Rightarrow> is_active \<and> monotonic w - check_time \<le> CACHE_TIMEOUT)"

text \<open>The gate is closed and stays closed: nothing registered, no fresh entry saying otherwise.\<close>

definition gate_closed :: "world \<Rightarrow> bool" where
  "gate_closed w = (endpoint_list_empty w \<and> \<not> gate_entry_fresh_and_active w)"


fun builds_and_puts :: "effect list \<Rightarrow> effect list" where
  "builds_and_puts [] = []"
| "builds_and_puts (BuildPayload g # es) = BuildPayload g # builds_and_puts es"
| "builds_and_puts (PutEvent p # es) = PutEvent p # builds_and_puts es"
| "builds_and_puts (e # es) = builds_and_puts es"

section \<open>Sample states for concrete evaluation\<close>

definition sample_world :: world where
  "sample_world =
     \<lparr>settings = \<lparr>OBSERVABILITY_ACTIVE = True, OBSERVABILITY_REPORT_ALL_API_CALLS = True,
                  OBSERVABILITY_MAX_PAYLOAD_SIZE = 100\<rparr>,
      site_domain = py ''example.com'',
      buffer_name = py ''observability_buffer'',
      registry = [],
      shared_cache = Some ([], 120),
      wall_clock = 0,
      active_webhooks_exists_cache = Map.empty,
      monotonic = 0,
      context_api_call = None,
      context_gql_operation = None,
      api_call_store = Map.empty,
      gql_operation_store = Map.empty,
      next_ref = 0,
      buffer = [],
      effects = []\<rparr>"

text \<open>
  No receiver is registered any more and the shared cache says so, but the gate was answered
  a minute ago, when one existed. One API call with a response awaits its report.
\<close>

definition stale_gate_world :: world where
  "stale_gate_world =
     sample_world
       \<lparr>active_webhooks_exists_cache := [py ''observability_buffer'' \<mapsto> (True, 0)],
        monotonic := 60,
        wall_clock := 60,
        api_call_store :=
          [0 \<mapsto> (ApiCall_init sample_request)\<lparr>apicall_response := Some sample_response\<rparr>],
        next_ref := 1\<rparr>"

text \<open>
  A receiver has been registered after the empty endpoint list was cached. One API call with a
  response awaits its report.
\<close>

definition late_registration_world :: world where
  "late_registration_world =
     sample_world
       \<lparr>registry := [sample_webhook],
        api_call_store :=
          [0 \<mapsto> (ApiCall_init sample_request)\<lparr>apicall_response := Some sample_response\<rparr>],
        next_ref := 1\<rparr>"

text \<open>A receiver is registered; nothing is cached yet.\<close>

definition listening_world :: world where
  "listening_world = sample_world\<lparr>registry := [sample_webhook], shared_cache := None\<rparr>"

text \<open>As before, with one API call that has no response yet.\<close>

definition pending_world :: world where
  "pending_world =
     listening_world\<lparr>api_call_store := [0 \<mapsto> ApiCall_init sample_request], next_ref := 1\<rparr>"



section \<open>Properties of the truncation\<close>

lemma json_char_len_ge_2: "2 \<le> json_char_len c"
  by (simp add: json_char_len_def ESCAPE_DCT_def)

lemma added_bytes_init_nonneg: "0 \<le> added_bytes (JsonTruncText_init t tr a)"
  by (simp add: JsonTruncText_init_def)

text \<open>The literal cases of the test suite.\<close>

lemma truncate_literal_cases:
  "truncate_text [97, 98, 99, 100, 101] 5 = \<lparr>text_of = [97, 98, 99, 100, 101], truncated = False, added_bytes = 0\<rparr>"
  "truncate_text [97, 98, 243] 3 = \<lparr>text_of = [97, 98], truncated = True, added_bytes = 0\<rparr>"
  "truncate_text [97, 98, 243] 8 = \<lparr>text_of = [97, 98, 243], truncated = False, added_bytes = 5\<rparr>"
  "truncate_text [97, 10, 99, 0x10001, 100] 16 = \<lparr>text_of = [97, 10, 99, 0x10001], truncated = True, added_bytes = 12\<rparr>"
  "truncate_text [97, 98, 99, 100] 0 = \<lparr>text_of = [], truncated = True, added_bytes = 0\<rparr>"
  by (simp_all add: truncate_text_def JsonTruncText_init_def ESCAPE_ASCII_def json_char_len_def
      ESCAPE_DCT_def)

text \<open>
  Claim C1. The claim reads: for every text and every integer limit, the byte size of
  \<open>truncate_text text limit\<close> is at most the limit. The loop of \<open>truncate\<close> visits only the
  characters that need escaping and tests the budget there; the plain characters after the last
  accepted escaped character are kept without a test. The text \<open>"aaaa\<close> (a double quote and
  four letters) under the limit 5 is cut to its first 5 characters, which is all of it; the
  quote is accepted with one added byte (1 + 1 is below 5), no other character is tested, and
  the whole text is returned: 5 characters and 1 added byte, 6 bytes under a limit of 5.
\<close>

theorem truncate_exceeds_limit_after_escape:
  "truncate_text [0x22, 97, 97, 97, 97] 5
     = \<lparr>text_of = [0x22, 97, 97, 97, 97], truncated = False, added_bytes = 1\<rparr>
   \<and> byte_size (truncate_text [0x22, 97, 97, 97, 97] 5) = 6
   \<and> 5 < byte_size (truncate_text [0x22, 97, 97, 97, 97] 5)"
  by (simp add: truncate_text_def byte_size_def JsonTruncText_init_def ESCAPE_ASCII_def
      json_char_len_def ESCAPE_DCT_def)

text \<open>
  Running the scan again on the text it produced: the result text is the scanned prefix \<open>pre\<close>
  followed by a part \<open>t\<close> of what was left, and a second scan of \<open>pre @ t\<close> from the same
  position accepts all of it.
\<close>

lemma truncate_loop_rerun:
  assumes "s = pre @ rest" and "pos = int (length pre)"
  shows "\<exists>t. text_of (truncate_loop limit n s rest pos added) = pre @ t
           \<and> length t \<le> length rest
           \<and> truncate_loop limit n' (pre @ t) t pos added =
               \<lparr>text_of = pre @ t, truncated = (int (length (pre @ t)) < n'),
                added_bytes = added_bytes (truncate_loop limit n s rest pos added)\<rparr>"
  using assms
proof (induction rest arbitrary: pre pos added)
  case Nil
  then show ?case by (simp add: JsonTruncText_init_def)
next
  case (Cons c rest)
  show ?case
  proof (cases "ESCAPE_ASCII c")
    case True
    let ?added' = "added + (json_char_len c - 1)"
    consider (over) "pos + 1 + ?added' > limit" | (exact) "pos + 1 + ?added' = limit"
      | (under) "pos + 1 + ?added' < limit" by linarith
    then show ?thesis
    proof cases
      case over
      with True Cons.prems show ?thesis
        by (intro exI[of _ "[]"]) (simp add: JsonTruncText_init_def Let_def)
    next
      case exact
      with True Cons.prems show ?thesis
        by (intro exI[of _ "[c]"]) (simp add: JsonTruncText_init_def Let_def nat_add_distrib)
    next
      case under
      from Cons.prems have "s = (pre @ [c]) @ rest" "pos + 1 = int (length (pre @ [c]))"
        by simp_all
      from Cons.IH[OF this, of ?added'] obtain t where
        "text_of (truncate_loop limit n s rest (pos + 1) ?added') = (pre @ [c]) @ t"
        "length t \<le> length rest"
        "truncate_loop limit n' ((pre @ [c]) @ t) t (pos + 1) ?added' =
           \<lparr>text_of = (pre @ [c]) @ t, truncated = (int (length ((pre @ [c]) @ t)) < n'),
            added_bytes = added_bytes (truncate_loop limit n s rest (pos + 1) ?added')\<rparr>"
        by blast
      with True under show ?thesis
        by (intro exI[of _ "c # t"]) (simp add: Let_def)
    qed
  next
    case False
    from Cons.prems have "s = (pre @ [c]) @ rest" "pos + 1 = int (length (pre @ [c]))"
      by simp_all
    from Cons.IH[OF this, of added] obtain t where
      "text_of (truncate_loop limit n s rest (pos + 1) added) = (pre @ [c]) @ t"
      "length t \<le> length rest"
      "truncate_loop limit n' ((pre @ [c]) @ t) t (pos + 1) added =
         \<lparr>text_of = (pre @ [c]) @ t, truncated = (int (length ((pre @ [c]) @ t)) < n'),
          added_bytes = added_bytes (truncate_loop limit n s rest (pos + 1) added)\<rparr>"
      by blast
    with False show ?thesis
      by (intro exI[of _ "c # t"]) simp
  qed
qed

text \<open>
  Claim C3, as amended. The claim reads: truncating the returned text again, under the same
  limit, yields the same text and the same truncated flag. The text (and the byte size) is indeed
  the same, but the flag compares the result with the text given to \<^emph>\<open>that\<close> call, so the
  second flag is always false; it equals the first flag only when the first call did not
  cut the text.
\<close>

theorem truncate_again_same_text_flag_false:
  "text_of (truncate_text (text_of (truncate_text s limit)) limit) = text_of (truncate_text s limit)
   \<and> byte_size (truncate_text (text_of (truncate_text s limit)) limit) = byte_size (truncate_text s limit)
   \<and> truncated (truncate_text (text_of (truncate_text s limit)) limit) = False"
proof -
  let ?l = "max limit 0"
  let ?c = "take (nat ?l) s"
  let ?r = "truncate_loop ?l (int (length s)) ?c ?c 0 0"
  have r: "truncate_text s limit = ?r" by (simp add: truncate_text_def Let_def)
  from truncate_loop_rerun[of ?c "[]" ?c 0 ?l "int (length s)" 0 "int (length (text_of ?r))"]
  obtain t where t: "text_of ?r = t" "length t \<le> length ?c"
    "truncate_loop ?l (int (length (text_of ?r))) t t 0 0 =
       \<lparr>text_of = t, truncated = (int (length t) < int (length (text_of ?r))),
        added_bytes = added_bytes ?r\<rparr>"
    by auto
  from t(2) have "take (nat ?l) t = t" by simp
  then have "truncate_text t limit = truncate_loop ?l (int (length t)) t t 0 0"
    by (simp add: truncate_text_def Let_def)
  with t r show ?thesis by (simp add: byte_size_def)
qed

theorem truncate_again_same_text_flag_false_witness:
  "text_of (truncate_text (text_of (truncate_text [97, 10, 99, 0x10001, 100] 10)) 10) = [97, 10, 99]
   \<and> truncated (truncate_text (text_of (truncate_text [97, 10, 99, 0x10001, 100] 10)) 10) = False"
proof -
  have "text_of (truncate_text [97, 10, 99, 0x10001, 100] 10) = [97, 10, 99]"
    by (simp add: truncate_text_def JsonTruncText_init_def ESCAPE_ASCII_def json_char_len_def
        ESCAPE_DCT_def)
  with truncate_again_same_text_flag_false [of "[97, 10, 99, 0x10001, 100]" 10]
  show ?thesis by simp
qed

text \<open>
  Claim C3 as stated fails: \<open>abcd\<close> under the limit 2 gives \<open>ab\<close> with the flag set, and
  \<open>ab\<close> under the limit 2 gives \<open>ab\<close> with the flag clear.
\<close>

theorem truncate_idempotent_flag_counterexample:
  "\<not> (text_of (truncate_text (text_of (truncate_text [97, 98, 99, 100] 2)) 2)
        = text_of (truncate_text [97, 98, 99, 100] 2)
      \<and> truncated (truncate_text (text_of (truncate_text [97, 98, 99, 100] 2)) 2)
        = truncated (truncate_text [97, 98, 99, 100] 2))"
  by (simp add: truncate_text_def JsonTruncText_init_def ESCAPE_ASCII_def)


section \<open>Properties of the sub-operation budget\<close>

lemma byte_size_truncate_nonneg: "0 \<le> byte_size (truncate_text s l)"
proof -
  have "0 \<le> added_bytes (truncate_loop a b c d e f)" for a b c d e f
    by (induction a b c d e f rule: truncate_loop.induct) (simp_all add: JsonTruncText_init_def Let_def)
  then show ?thesis by (simp add: byte_size_def truncate_text_def Let_def)
qed

lemma placeholder_size_nonneg: "0 \<le> GQL_OPERATION_PLACEHOLDER_SIZE ext"
  by (simp add: GQL_OPERATION_PLACEHOLDER_SIZE_def)

lemma serialize_gql_operation_result_fails_iff:
  "(\<exists>e. serialize_gql_operation_result ext operation l = Inl e) \<longleftrightarrow> l < GQL_OPERATION_PLACEHOLDER_SIZE ext"
  by (auto simp add: serialize_gql_operation_result_def Let_def split: prod.splits)

lemma serialize_gql_operation_result_ok:
  assumes "GQL_OPERATION_PLACEHOLDER_SIZE ext \<le> l"
  shows "\<exists>payload left. serialize_gql_operation_result ext operation l = Inr (payload, left) \<and> 0 \<le> left"
  using assms
  by (auto simp add: serialize_gql_operation_result_def Let_def split: prod.splits)

lemma slice_ge_placeholder:
  fixes P r k :: int
  assumes "0 < k" and "k * P \<le> r"
  shows "P \<le> r div k"
proof -
  have "(k * P) div k \<le> r div k" using assms by (intro zdiv_mono1) auto
  with assms show ?thesis by simp
qed

lemma remaining_after_slice:
  fixes P r k :: int
  assumes "0 < k" and "k * P \<le> r" and "0 \<le> left"
  shows "(k - 1) * P \<le> r - r div k + left"
proof -
  have q: "P \<le> r div k" using assms by (intro slice_ge_placeholder) auto
  have "r = k * (r div k) + r mod k" by simp
  moreover have "0 \<le> r mod k" using assms by simp
  ultimately have "r - r div k \<ge> (k - 1) * (r div k)"
    by (smt (verit) left_diff_distrib mult_cancel_right1)
  moreover have "(k - 1) * P \<le> (k - 1) * (r div k)" using q assms by (intro mult_left_mono) auto
  ultimately show ?thesis using assms by linarith
qed

lemma spec_budget_operations_ok:
  assumes "int (length operations) * GQL_OPERATION_PLACEHOLDER_SIZE ext \<le> remaining"
  shows "\<exists>payloads. spec_budget_operations ext operations remaining = Inr payloads
           \<and> length payloads = length operations"
  using assms
proof (induction operations arbitrary: remaining)
  case Nil
  then show ?case by simp
next
  case (Cons operation others)
  let ?P = "GQL_OPERATION_PLACEHOLDER_SIZE ext"
  let ?k = "int (length (operation # others))"
  let ?slice = "remaining div ?k"
  have k: "0 < ?k" by simp
  from Cons.prems have le: "?k * ?P \<le> remaining" by simp
  have "?P \<le> ?slice" using k le by (rule slice_ge_placeholder)
  then obtain payload left where
    r: "serialize_gql_operation_result ext operation ?slice = Inr (payload, left)" and l: "0 \<le> left"
    using serialize_gql_operation_result_ok by blast
  have "(?k - 1) * ?P \<le> remaining - ?slice + left" using k le l by (rule remaining_after_slice)
  then have "int (length others) * ?P \<le> remaining - ?slice + left" by simp
  from Cons.IH[OF this] obtain payloads where
    "spec_budget_operations ext others (remaining - ?slice + left) = Inr payloads"
    "length payloads = length others" by blast
  with r show ?case by (simp add: Let_def)
qed

lemma results_loop_eq_spec:
  "serialize_gql_operation_results_loop ext (int (i + length operations)) (enumerate i operations) acc remaining
     = (case spec_budget_operations ext operations remaining of
          Inl e \<Rightarrow> Inl e | Inr payloads \<Rightarrow> Inr (acc @ payloads))"
proof (induction operations arbitrary: i acc remaining)
  case Nil
  then show ?case by simp
next
  case (Cons operation others)
  let ?n = "int (i + length (operation # others))"
  let ?slice = "remaining div int (length (operation # others))"
  have n: "?n = int (Suc i + length others)" by simp
  have d: "?n - int i = int (length (operation # others))" by simp
  show ?case
  proof (cases "serialize_gql_operation_result ext operation ?slice")
    case (Inl e)
    then show ?thesis
      unfolding enumerate_simps serialize_gql_operation_results_loop.simps
        spec_budget_operations.simps d Let_def
      by simp
  next
    case (Inr r)
    obtain payload left where r: "r = (payload, left)" by (cases r)
    have c: "a - (b - left) = a - b + left" for a b :: int by simp
    from Inr r show ?thesis
      unfolding enumerate_simps serialize_gql_operation_results_loop.simps
        spec_budget_operations.simps d Let_def
      unfolding n
      by (simp only: sum.case prod.case Cons.IH c) (simp split: sum.splits)
  qed
qed

lemma serialize_gql_operation_results_eq_spec:
  "serialize_gql_operation_results ext operations remaining
     = spec_sub_operation_budgeting ext operations remaining"
  using results_loop_eq_spec[of ext 0 operations "[]" remaining]
  by (simp add: serialize_gql_operation_results_def spec_sub_operation_budgeting_def
      split: sum.splits)

lemma serialize_gql_operation_results_error:
  assumes "serialize_gql_operation_results ext operations remaining = Inl e"
  shows "e = ValueError NoMessage
         \<and> remaining < int (length operations) * GQL_OPERATION_PLACEHOLDER_SIZE ext"
proof -
  have "\<exists>payloads. spec_budget_operations ext operations remaining = Inr payloads"
    if "\<not> remaining < int (length operations) * GQL_OPERATION_PLACEHOLDER_SIZE ext"
    using that spec_budget_operations_ok[of operations ext remaining] by auto
  with assms show ?thesis
    unfolding serialize_gql_operation_results_eq_spec spec_sub_operation_budgeting_def
    by (auto split: if_splits)
qed

lemma serialize_gql_operation_results_fails:
  assumes "remaining < int (length operations) * GQL_OPERATION_PLACEHOLDER_SIZE ext"
  shows "serialize_gql_operation_results ext operations remaining = Inl (ValueError NoMessage)"
  using assms by (simp add: serialize_gql_operation_results_def)

text \<open>
  Claim C2. Serialising a list of \<open>count\<close> sub-operations under the budget \<open>remaining\<close> raises
  the budget error exactly when \<open>remaining < count * placeholderCost\<close>; otherwise every operation
  is serialised, and the loop of the code is the left-to-right rule of the specification: the
  operation at hand, with \<open>count - i\<close> operations still to do, is given
  \<open>remaining div (count - i)\<close> bytes, and what it leaves unused goes back into \<open>remaining\<close>.
\<close>

theorem serialize_gql_operation_results_budgeting:
  "serialize_gql_operation_results ext operations remaining
     = spec_sub_operation_budgeting ext operations remaining
   \<and> ((\<exists>e. serialize_gql_operation_results ext operations remaining = Inl e)
        \<longleftrightarrow> remaining < int (length operations) * GQL_OPERATION_PLACEHOLDER_SIZE ext)
   \<and> (\<not> remaining < int (length operations) * GQL_OPERATION_PLACEHOLDER_SIZE ext
        \<longrightarrow> (\<exists>payloads. serialize_gql_operation_results ext operations remaining = Inr payloads
              \<and> length payloads = length operations))"
proof -
  have eq: "serialize_gql_operation_results ext operations remaining
     = spec_sub_operation_budgeting ext operations remaining"
    by (rule serialize_gql_operation_results_eq_spec)
  have ok: "\<exists>payloads. spec_sub_operation_budgeting ext operations remaining = Inr payloads
              \<and> length payloads = length operations"
    if "\<not> remaining < int (length operations) * GQL_OPERATION_PLACEHOLDER_SIZE ext"
    using that spec_budget_operations_ok[of operations ext remaining]
    by (simp add: spec_sub_operation_budgeting_def)
  have fail: "spec_sub_operation_budgeting ext operations remaining = Inl (ValueError NoMessage)"
    if "remaining < int (length operations) * GQL_OPERATION_PLACEHOLDER_SIZE ext"
    using that by (simp add: spec_sub_operation_budgeting_def)
  show ?thesis using eq ok fail by (metis Inl_Inr_False)
qed

lemma sample_placeholder_size: "GQL_OPERATION_PLACEHOLDER_SIZE sample_externals = 8"
  by (simp add: GQL_OPERATION_PLACEHOLDER_SIZE_def json_serialize_def sample_externals_def)

theorem serialize_gql_operation_results_budgeting_witness:
  "\<not> 20 < int (length [sample_operation, sample_operation])
            * GQL_OPERATION_PLACEHOLDER_SIZE sample_externals
   \<and> (\<exists>payloads.
         serialize_gql_operation_results sample_externals [sample_operation, sample_operation] 20
           = Inr payloads
         \<and> length payloads = length [sample_operation, sample_operation])
   \<and> (\<exists>e. serialize_gql_operation_results sample_externals [sample_operation, sample_operation] 15
           = Inl e)"
proof -
  let ?ops = "[sample_operation, sample_operation]"
  have h20: "\<not> 20 < int (length ?ops) * GQL_OPERATION_PLACEHOLDER_SIZE sample_externals"
    by (simp add: sample_placeholder_size)
  have h15: "15 < int (length ?ops) * GQL_OPERATION_PLACEHOLDER_SIZE sample_externals"
    by (simp add: sample_placeholder_size)
  from serialize_gql_operation_results_budgeting [of sample_externals ?ops 20] h20
  have a: "\<exists>payloads. serialize_gql_operation_results sample_externals ?ops 20 = Inr payloads
             \<and> length payloads = length ?ops"
    by blast
  from serialize_gql_operation_results_budgeting [of sample_externals ?ops 15] h15
  have b: "\<exists>e. serialize_gql_operation_results sample_externals ?ops 15 = Inl e"
    by blast
  from h20 a b show ?thesis by blast
qed


section \<open>Properties of the API-call payload\<close>

lemma py_eq_iff [simp]: "py a = py b \<longleftrightarrow> a = b"
  unfolding py_def using inj_of_char[where 'a = nat] by (simp add: inj_map_eq_map)

lemma camel_case_items_scalar:
  "is_scalar v \<Longrightarrow> camel_case_items ext ((k, v) # rest) data
     = camel_case_items ext rest (AList.update (to_camel_case ext k) v data)"
  by (cases v) simp_all

lemma camel_case_items_scalars:
  "list_all (\<lambda>kv. is_scalar (snd kv)) d \<Longrightarrow> \<exists>r. camel_case_items ext d data = Inr r"
proof (induction d arbitrary: data)
  case Nil
  then show ?case by simp
next
  case (Cons kv d)
  obtain k v where kv: "kv = (k, v)" by (cases kv)
  with Cons.prems have "is_scalar v" "list_all (\<lambda>kv. is_scalar (snd kv)) d" by simp_all
  with Cons.IH kv show ?case by (simp add: camel_case_items_scalar)
qed

lemma camel_case_headers_dict: "\<exists>r. payload_to_camel_case ext (headers_dict h) = Inr r"
  unfolding headers_dict_def payload_to_camel_case.simps
  by (rule camel_case_items_scalars) (induction h, auto)

lemma camel_case_items_append:
  "camel_case_items ext (xs @ ys) data
     = (case camel_case_items ext xs data of Inl e \<Rightarrow> Inl e | Inr d \<Rightarrow> camel_case_items ext ys d)"
proof (induction xs arbitrary: data)
  case Nil
  then show ?case by simp
next
  case (Cons kv xs)
  obtain k v where kv: "kv = (k, v)" by (cases kv)
  show ?case unfolding kv by (cases v) (simp_all add: Cons.IH split: sum.splits)
qed

lemma update_scalars:
  "list_all (\<lambda>kv. is_scalar (snd kv)) al \<Longrightarrow> is_scalar v
     \<Longrightarrow> list_all (\<lambda>kv. is_scalar (snd kv)) (AList.update k v al)"
  by (induction al) auto

lemma serialize_gql_operation_result_scalars:
  assumes "serialize_gql_operation_result ext operation l = Inr (payload, left)"
  shows "list_all (\<lambda>kv. is_scalar (snd kv)) payload"
  using assms
  by (auto simp add: serialize_gql_operation_result_def Let_def update_scalars
      split: if_splits option.splits prod.splits)


lemma spec_budget_operations_scalars:
  "spec_budget_operations ext operations remaining = Inr payloads
     \<Longrightarrow> list_all (list_all (\<lambda>kv. is_scalar (snd kv))) payloads"
proof (induction operations arbitrary: remaining payloads)
  case Nil
  then show ?case by simp
next
  case (Cons operation others)
  then show ?case
    by (auto simp add: Let_def serialize_gql_operation_result_scalars
        split: sum.splits prod.splits)
qed

lemma serialize_gql_operation_results_scalars:
  assumes "serialize_gql_operation_results ext operations remaining = Inr payloads"
  shows "list_all (list_all (\<lambda>kv. is_scalar (snd kv))) payloads"
proof -
  from assms show ?thesis
    unfolding serialize_gql_operation_results_eq_spec
    by (auto simp add: spec_sub_operation_budgeting_def spec_budget_operations_scalars
        split: if_splits)
qed

lemma camel_case_list_scalar_dicts:
  "list_all (list_all (\<lambda>kv. is_scalar (snd kv))) ps
     \<Longrightarrow> \<exists>r. camel_case_list ext (map PDict ps) = Inr r"
proof (induction ps)
  case Nil
  then show ?case by simp
next
  case (Cons p ps)
  then obtain r where r: "camel_case_list ext (map PDict ps) = Inr r" by auto
  from Cons.prems obtain d where "camel_case_items ext p [] = Inr d"
    using camel_case_items_scalars[of p ext "[]"] by auto
  with r show ?case by simp
qed

text \<open>The shape of the payload that reaches the final serialisation.\<close>

lemma api_call_initial_payload_shape:
  assumes "api_call_initial_payload ext request response gql_operations = Inr payload"
  shows "\<exists>content_length a.
           payload = [(py ''event_type'', PStr (py ''observability_api_call'')),
                      (py ''request'', PDict (api_call_request_payload ext request content_length)),
                      (py ''response'', PDict (api_call_response_payload ext response)),
                      (py ''app'', a)]
                     @ [(py ''gql_operations'', PDict (api_call_gql_operations gql_operations))]
           \<and> (a = PNone \<or> (\<exists>app. a = PDict (app_payload ext app)))"
  using assms
  by (auto simp add: api_call_initial_payload_def Let_def split: sum.splits option.splits)

lemma api_call_payload_shape:
  assumes "api_call_payload ext request response gql_operations bytes_limit = Inr payload"
  shows "\<exists>content_length a xs.
           payload = [(py ''event_type'', PStr (py ''observability_api_call'')),
                      (py ''request'', PDict (api_call_request_payload ext request content_length)),
                      (py ''response'', PDict (api_call_response_payload ext response)),
                      (py ''app'', a)]
                     @ [(py ''gql_operations'',
                         PDict [(py ''count'', PInt (int (length gql_operations))),
                                (py ''operations'', PList xs)])]
           \<and> (a = PNone \<or> (\<exists>app. a = PDict (app_payload ext app)))
           \<and> (xs = [] \<or> (\<exists>ps. xs = map PDict ps
                                \<and> list_all (list_all (\<lambda>kv. is_scalar (snd kv))) ps))"
proof -
  from assms obtain initial where
    i: "api_call_initial_payload ext request response gql_operations = Inr initial"
    by (auto simp add: api_call_payload_def split: sum.splits)
  from api_call_initial_payload_shape[OF i] obtain content_length a where
    sh: "initial = [(py ''event_type'', PStr (py ''observability_api_call'')),
                      (py ''request'', PDict (api_call_request_payload ext request content_length)),
                      (py ''response'', PDict (api_call_response_payload ext response)),
                      (py ''app'', a)]
                     @ [(py ''gql_operations'', PDict (api_call_gql_operations gql_operations))]"
    and a: "a = PNone \<or> (\<exists>app. a = PDict (app_payload ext app))"
    by blast
  let ?fixed = "int (length (json_serialize ext (PDict initial) False))"
  from assms i have fits: "\<not> bytes_limit - ?fixed < 0"
    by (auto simp add: api_call_payload_def Let_def split: if_splits)
  show ?thesis
  proof (cases "serialize_gql_operation_results ext gql_operations (bytes_limit - ?fixed)")
    case (Inl e)
    with assms i fits have "payload = initial"
      by (cases e) (auto simp add: api_call_payload_def Let_def)
    with sh a show ?thesis by (auto simp add: api_call_gql_operations_def)
  next
    case (Inr ps)
    with assms i fits have
      "payload = AList.update (py ''gql_operations'')
                   (PDict (AList.update (py ''operations'') (PList (map PDict ps))
                             (api_call_gql_operations gql_operations)))
                   initial"
      by (auto simp add: api_call_payload_def Let_def)
    moreover from Inr have "list_all (list_all (\<lambda>kv. is_scalar (snd kv))) ps"
      by (rule serialize_gql_operation_results_scalars)
    ultimately show ?thesis using sh a
      by (auto simp add: api_call_gql_operations_def)
  qed
qed


lemma camel_case_request_payload:
  "\<exists>r. payload_to_camel_case ext (PDict (api_call_request_payload ext request n)) = Inr r"
proof -
  obtain h where
    "payload_to_camel_case ext (headers_dict (hide_sensitive_headers ext (request_headers request)))
       = Inr h"
    using camel_case_headers_dict by blast
  then show ?thesis
    by (simp add: api_call_request_payload_def headers_dict_def del: AList.update.simps)
qed

lemma camel_case_response_payload:
  "\<exists>r. payload_to_camel_case ext (PDict (api_call_response_payload ext response)) = Inr r"
proof -
  obtain h where
    "payload_to_camel_case ext (headers_dict (hide_sensitive_headers ext (response_headers response)))
       = Inr h"
    using camel_case_headers_dict by blast
  then show ?thesis
    by (simp add: api_call_response_payload_def headers_dict_def del: AList.update.simps)
qed

lemma camel_case_app_payload:
  "\<exists>r. payload_to_camel_case ext (PDict (app_payload ext app)) = Inr r"
  by (simp add: app_payload_def del: AList.update.simps)

lemma camel_case_api_call_document:
  assumes payload:
    "payload = [(py ''event_type'', PStr (py ''observability_api_call'')),
                (py ''request'', PDict (api_call_request_payload ext request content_length)),
                (py ''response'', PDict (api_call_response_payload ext response)),
                (py ''app'', a)]
               @ [(py ''gql_operations'',
                   PDict [(py ''count'', PInt n), (py ''operations'', PList xs)])]"
    and a: "a = PNone \<or> (\<exists>app. a = PDict (app_payload ext app))"
    and xs: "camel_case_list ext xs = Inr xs'"
  shows "\<exists>document.
           payload_to_camel_case ext (PDict payload) = Inr document
           \<and> map_of document (to_camel_case ext (py ''gql_operations''))
               = Some (PDict (AList.update (to_camel_case ext (py ''operations'')) (PList xs')
                                [(to_camel_case ext (py ''count''), PInt n)]))"
proof -
  obtain rq where rq:
    "payload_to_camel_case ext (PDict (api_call_request_payload ext request content_length)) = Inr rq"
    using camel_case_request_payload by blast
  obtain rs where rs:
    "payload_to_camel_case ext (PDict (api_call_response_payload ext response)) = Inr rs"
    using camel_case_response_payload by blast
  have "\<exists>d. camel_case_items ext
               [(py ''event_type'', PStr (py ''observability_api_call'')),
                (py ''request'', PDict (api_call_request_payload ext request content_length)),
                (py ''response'', PDict (api_call_response_payload ext response)),
                (py ''app'', a)] [] = Inr d"
  proof (cases "a = PNone")
    case True
    with rq rs show ?thesis by (simp del: AList.update.simps)
  next
    case False
    with a obtain app where app: "a = PDict (app_payload ext app)" by blast
    obtain ra where "payload_to_camel_case ext (PDict (app_payload ext app)) = Inr ra"
      using camel_case_app_payload by blast
    with rq rs app show ?thesis by (simp del: AList.update.simps)
  qed
  then obtain d where d: "camel_case_items ext
               [(py ''event_type'', PStr (py ''observability_api_call'')),
                (py ''request'', PDict (api_call_request_payload ext request content_length)),
                (py ''response'', PDict (api_call_response_payload ext response)),
                (py ''app'', a)] [] = Inr d" by blast
  let ?g = "AList.update (to_camel_case ext (py ''operations'')) (PList xs')
              [(to_camel_case ext (py ''count''), PInt n)]"
  have g: "payload_to_camel_case ext (PDict [(py ''count'', PInt n), (py ''operations'', PList xs)])
             = Inr ?g"
    using xs by simp
  have "payload_to_camel_case ext (PDict payload)
          = Inr (AList.update (to_camel_case ext (py ''gql_operations'')) (PDict ?g) d)"
    unfolding payload payload_to_camel_case.simps camel_case_items_append d
    using g by (simp del: AList.update.simps)
  then show ?thesis by (simp add: update_conv' del: AList.update.simps)
qed


lemma generate_api_call_payload_document:
  assumes "api_call_payload ext request response gql_operations bytes_limit = Inr payload"
  shows "\<exists>document xs.
           payload_to_camel_case ext (PDict payload) = Inr document
           \<and> generate_api_call_payload ext request response gql_operations bytes_limit
               = Inr (json_serialize ext (PDict document) False)
           \<and> map_of document (to_camel_case ext (py ''gql_operations''))
               = Some (PDict (AList.update (to_camel_case ext (py ''operations'')) (PList xs)
                                [(to_camel_case ext (py ''count''),
                                  PInt (int (length gql_operations)))]))
           \<and> (map_of payload (py ''gql_operations'')
                 = Some (PDict (api_call_gql_operations gql_operations)) \<longrightarrow> xs = [])"
proof -
  from api_call_payload_shape[OF assms] obtain content_length a xs where
    sh: "payload = [(py ''event_type'', PStr (py ''observability_api_call'')),
                      (py ''request'', PDict (api_call_request_payload ext request content_length)),
                      (py ''response'', PDict (api_call_response_payload ext response)),
                      (py ''app'', a)]
                     @ [(py ''gql_operations'',
                         PDict [(py ''count'', PInt (int (length gql_operations))),
                                (py ''operations'', PList xs)])]"
    and a: "a = PNone \<or> (\<exists>app. a = PDict (app_payload ext app))"
    and xs: "xs = [] \<or> (\<exists>ps. xs = map PDict ps
                                \<and> list_all (list_all (\<lambda>kv. is_scalar (snd kv))) ps)"
    by blast
  from xs obtain xs' where xs': "camel_case_list ext xs = Inr xs'"
    using camel_case_list_scalar_dicts by auto
  from camel_case_api_call_document[OF sh a xs'] obtain document where
    d: "payload_to_camel_case ext (PDict payload) = Inr document"
       "map_of document (to_camel_case ext (py ''gql_operations''))
          = Some (PDict (AList.update (to_camel_case ext (py ''operations'')) (PList xs')
                           [(to_camel_case ext (py ''count''), PInt (int (length gql_operations)))]))"
    by blast
  have "xs' = []" if "map_of payload (py ''gql_operations'')
                 = Some (PDict (api_call_gql_operations gql_operations))"
  proof -
    from that sh have "xs = []" by (simp add: api_call_gql_operations_def)
    with xs' show ?thesis by simp
  qed
  with d assms show ?thesis
    by (simp add: generate_api_call_payload_def)
qed

text \<open>
  Claim C9. In every document that \<open>generate_api_call_payload\<close> returns, the \<open>count\<close> entry of
  \<open>gql_operations\<close> is the number of sub-operations the caller supplied, whether or not the
  budget fallback left the list of operations empty. The keys are those that \<open>to_camel_case\<close>
  gives; the renaming must keep \<open>count\<close> and \<open>operations\<close> apart, as the actual one does, for
  otherwise the later entry overwrites the count.
\<close>

theorem api_call_document_count:
  assumes "to_camel_case ext (py ''count'') \<noteq> to_camel_case ext (py ''operations'')"
    and "generate_api_call_payload ext request response gql_operations bytes_limit = Inr doc"
  shows "\<exists>payload document g.
           api_call_payload ext request response gql_operations bytes_limit = Inr payload
           \<and> payload_to_camel_case ext (PDict payload) = Inr document
           \<and> doc = json_serialize ext (PDict document) False
           \<and> map_of document (to_camel_case ext (py ''gql_operations'')) = Some (PDict g)
           \<and> map_of g (to_camel_case ext (py ''count''))
               = Some (PInt (int (length gql_operations)))"
proof -
  from assms(2) obtain payload where
    p: "api_call_payload ext request response gql_operations bytes_limit = Inr payload"
    by (auto simp add: generate_api_call_payload_def split: sum.splits)
  from generate_api_call_payload_document[OF p] obtain document xs where
    d: "payload_to_camel_case ext (PDict payload) = Inr document"
       "generate_api_call_payload ext request response gql_operations bytes_limit
          = Inr (json_serialize ext (PDict document) False)"
       "map_of document (to_camel_case ext (py ''gql_operations''))
          = Some (PDict (AList.update (to_camel_case ext (py ''operations'')) (PList xs)
                           [(to_camel_case ext (py ''count''),
                             PInt (int (length gql_operations)))]))"
    by blast
  let ?g = "AList.update (to_camel_case ext (py ''operations'')) (PList xs)
              [(to_camel_case ext (py ''count''), PInt (int (length gql_operations)))]"
  from assms(1) have "map_of ?g (to_camel_case ext (py ''count''))
                        = Some (PInt (int (length gql_operations)))"
    by (simp add: update_conv' del: AList.update.simps)
  moreover from d(2) assms(2) have "doc = json_serialize ext (PDict document) False" by simp
  ultimately show ?thesis using p d(1) d(3) by blast
qed

text \<open>
  Claim C7. A budget error of the sub-operation step never leaves \<open>generate_api_call_payload\<close>.
  Once the fixed part of the payload is built, the call fails exactly when the fixed part alone
  is larger than the byte limit, with the size error; and when the fixed part fits but the
  sub-operations cannot be budgeted, the document returned is the fixed payload itself, whose
  list of operations is empty.
\<close>

theorem generate_api_call_payload_degrades:
  "generate_api_call_payload ext request response gql_operations bytes_limit
     \<noteq> Inl (ValueError NoMessage)
   \<and> (\<forall>initial.
        api_call_initial_payload ext request response gql_operations = Inr initial \<longrightarrow>
        (let fixed = int (length (json_serialize ext (PDict initial) False))
         in ((\<exists>e. generate_api_call_payload ext request response gql_operations bytes_limit = Inl e)
               \<longleftrightarrow> bytes_limit < fixed)
            \<and> (bytes_limit < fixed \<longrightarrow>
                 generate_api_call_payload ext request response gql_operations bytes_limit
                   = Inl (ValueError (PayloadTooBig bytes_limit)))
            \<and> (\<not> bytes_limit < fixed
                 \<and> (\<exists>e. serialize_gql_operation_results ext gql_operations (bytes_limit - fixed)
                          = Inl e) \<longrightarrow>
                 (\<exists>document g.
                    payload_to_camel_case ext (PDict initial) = Inr document
                    \<and> generate_api_call_payload ext request response gql_operations bytes_limit
                        = Inr (json_serialize ext (PDict document) False)
                    \<and> map_of document (to_camel_case ext (py ''gql_operations'')) = Some (PDict g)
                    \<and> map_of g (to_camel_case ext (py ''operations'')) = Some (PList [])))))"
proof -
  let ?gen = "generate_api_call_payload ext request response gql_operations bytes_limit"
  let ?pay = "api_call_payload ext request response gql_operations bytes_limit"
  have ok: "\<exists>doc. ?gen = Inr doc" if "?pay = Inr payload" for payload
    using generate_api_call_payload_document[OF that] by blast
  have results_err: "e = ValueError NoMessage"
    if "serialize_gql_operation_results ext gql_operations r = Inl e" for r e
    using that serialize_gql_operation_results_error by blast
  have no_budget_error: "?gen \<noteq> Inl (ValueError NoMessage)"
  proof (cases ?pay)
    case (Inl e)
    then have "e \<noteq> ValueError NoMessage"
      by (auto simp add: api_call_payload_def api_call_initial_payload_def
          request_content_length_def Let_def
          split: sum.splits option.splits if_splits error.splits dest: results_err)
    with Inl show ?thesis by (simp add: generate_api_call_payload_def)
  next
    case (Inr payload)
    with ok show ?thesis by fastforce
  qed
  have main: "((\<exists>e. ?gen = Inl e) \<longleftrightarrow> bytes_limit < int (length (json_serialize ext (PDict initial) False)))
            \<and> (bytes_limit < int (length (json_serialize ext (PDict initial) False)) \<longrightarrow>
                 ?gen = Inl (ValueError (PayloadTooBig bytes_limit)))
            \<and> (\<not> bytes_limit < int (length (json_serialize ext (PDict initial) False))
                 \<and> (\<exists>e. serialize_gql_operation_results ext gql_operations
                           (bytes_limit - int (length (json_serialize ext (PDict initial) False)))
                          = Inl e) \<longrightarrow>
                 (\<exists>document g.
                    payload_to_camel_case ext (PDict initial) = Inr document
                    \<and> ?gen = Inr (json_serialize ext (PDict document) False)
                    \<and> map_of document (to_camel_case ext (py ''gql_operations'')) = Some (PDict g)
                    \<and> map_of g (to_camel_case ext (py ''operations'')) = Some (PList [])))"
    if i: "api_call_initial_payload ext request response gql_operations = Inr initial" for initial
  proof -
    let ?fixed = "int (length (json_serialize ext (PDict initial) False))"
    have too_big: "?gen = Inl (ValueError (PayloadTooBig bytes_limit))" if "bytes_limit < ?fixed"
      using that i by (simp add: generate_api_call_payload_def api_call_payload_def Let_def)
    have fits: "\<exists>payload. ?pay = Inr payload" if "\<not> bytes_limit < ?fixed"
    proof (cases "serialize_gql_operation_results ext gql_operations (bytes_limit - ?fixed)")
      case (Inl e)
      with results_err have "e = ValueError NoMessage" by blast
      with Inl that i show ?thesis by (simp add: api_call_payload_def Let_def)
    next
      case (Inr ps)
      with that i show ?thesis by (simp add: api_call_payload_def Let_def)
    qed
    have iff: "(\<exists>e. ?gen = Inl e) \<longleftrightarrow> bytes_limit < ?fixed"
      using too_big fits ok by (metis Inl_Inr_False)
    have degrade: "\<exists>document g.
                    payload_to_camel_case ext (PDict initial) = Inr document
                    \<and> ?gen = Inr (json_serialize ext (PDict document) False)
                    \<and> map_of document (to_camel_case ext (py ''gql_operations'')) = Some (PDict g)
                    \<and> map_of g (to_camel_case ext (py ''operations'')) = Some (PList [])"
      if f: "\<not> bytes_limit < ?fixed"
        and e: "serialize_gql_operation_results ext gql_operations (bytes_limit - ?fixed) = Inl e"
      for e
    proof -
      from e results_err have "e = ValueError NoMessage" by blast
      with e f i have p: "?pay = Inr initial" by (simp add: api_call_payload_def Let_def)
      from api_call_initial_payload_shape[OF i] have
        "map_of initial (py ''gql_operations'')
           = Some (PDict (api_call_gql_operations gql_operations))"
        by auto
      with generate_api_call_payload_document[OF p] obtain document where
        d: "payload_to_camel_case ext (PDict initial) = Inr document"
           "?gen = Inr (json_serialize ext (PDict document) False)"
           "map_of document (to_camel_case ext (py ''gql_operations''))
              = Some (PDict (AList.update (to_camel_case ext (py ''operations'')) (PList [])
                               [(to_camel_case ext (py ''count''),
                                 PInt (int (length gql_operations)))]))"
        by blast
      have "map_of (AList.update (to_camel_case ext (py ''operations'')) (PList [])
                      [(to_camel_case ext (py ''count''), PInt (int (length gql_operations)))])
              (to_camel_case ext (py ''operations'')) = Some (PList [])"
        by (simp add: update_conv' del: AList.update.simps)
      with d show ?thesis by blast
    qed
    from too_big iff degrade show ?thesis by blast
  qed
  from no_budget_error main show ?thesis unfolding Let_def by blast
qed


lemma sample_json_serialize_length:
  "length (json_serialize sample_externals v pretty) = 8"
  by (simp add: json_serialize_def sample_externals_def)

lemma sample_initial_payload:
  "\<exists>initial. api_call_initial_payload sample_externals sample_request sample_response ops
                = Inr initial"
  by (simp add: api_call_initial_payload_def request_content_length_def sample_request_def
      Let_def)

theorem api_call_document_count_witness:
  "to_camel_case sample_externals (py ''count'')
     \<noteq> to_camel_case sample_externals (py ''operations'')
   \<and> generate_api_call_payload sample_externals sample_request sample_response
        [sample_operation, sample_operation] 20 = Inr (replicate 8 0x78)
   \<and> (\<exists>payload document g.
         api_call_payload sample_externals sample_request sample_response
           [sample_operation, sample_operation] 20 = Inr payload
         \<and> payload_to_camel_case sample_externals (PDict payload) = Inr document
         \<and> map_of document (to_camel_case sample_externals (py ''gql_operations''))
             = Some (PDict g)
         \<and> map_of g (to_camel_case sample_externals (py ''count''))
             = Some (PInt (int (length [sample_operation, sample_operation]))))"
proof -
  let ?ops = "[sample_operation, sample_operation]"
  have h1: "to_camel_case sample_externals (py ''count'')
              \<noteq> to_camel_case sample_externals (py ''operations'')"
    by (simp add: sample_externals_def)
  obtain initial where
    i: "api_call_initial_payload sample_externals sample_request sample_response ?ops
          = Inr initial"
    using sample_initial_payload by blast
  have "serialize_gql_operation_results sample_externals ?ops (20 - 8)
          = Inl (ValueError NoMessage)"
    by (rule serialize_gql_operation_results_fails) (simp add: sample_placeholder_size)
  with i have p: "api_call_payload sample_externals sample_request sample_response ?ops 20
                    = Inr initial"
    by (simp add: api_call_payload_def Let_def sample_json_serialize_length)
  from generate_api_call_payload_document[OF p] obtain document where
    "generate_api_call_payload sample_externals sample_request sample_response ?ops 20
       = Inr (json_serialize sample_externals (PDict document) False)"
    by blast
  then have h2: "generate_api_call_payload sample_externals sample_request sample_response
                   ?ops 20 = Inr (replicate 8 0x78)"
    by (simp add: json_serialize_def sample_externals_def)
  from api_call_document_count [OF h1 h2] h1 h2 show ?thesis by blast
qed

theorem generate_api_call_payload_degrades_witness:
  "\<exists>initial document g.
     api_call_initial_payload sample_externals sample_request sample_response
       [sample_operation, sample_operation] = Inr initial
     \<and> \<not> 20 < int (length (json_serialize sample_externals (PDict initial) False))
     \<and> (\<exists>e. serialize_gql_operation_results sample_externals
                [sample_operation, sample_operation]
                (20 - int (length (json_serialize sample_externals (PDict initial) False)))
              = Inl e)
     \<and> payload_to_camel_case sample_externals (PDict initial) = Inr document
     \<and> generate_api_call_payload sample_externals sample_request sample_response
         [sample_operation, sample_operation] 20
         = Inr (json_serialize sample_externals (PDict document) False)
     \<and> map_of document (to_camel_case sample_externals (py ''gql_operations''))
         = Some (PDict g)
     \<and> map_of g (to_camel_case sample_externals (py ''operations'')) = Some (PList [])"
proof -
  let ?ops = "[sample_operation, sample_operation]"
  obtain initial where
    i: "api_call_initial_payload sample_externals sample_request sample_response ?ops
          = Inr initial"
    using sample_initial_payload by blast
  let ?fixed = "int (length (json_serialize sample_externals (PDict initial) False))"
  have fits: "\<not> 20 < ?fixed" by (simp add: sample_json_serialize_length)
  have "serialize_gql_operation_results sample_externals ?ops (20 - ?fixed)
          = Inl (ValueError NoMessage)"
    by (rule serialize_gql_operation_results_fails)
      (simp add: sample_placeholder_size sample_json_serialize_length)
  then have fails: "\<exists>e. serialize_gql_operation_results sample_externals ?ops (20 - ?fixed)
                          = Inl e"
    by blast
  from generate_api_call_payload_degrades
         [of sample_externals sample_request sample_response ?ops 20]
       i fits fails
  show ?thesis unfolding Let_def by blast
qed


section \<open>Properties of the delivery-attempt payload\<close>

lemma sample_attempt_decoded:
  "attempt_decoded sample_externals sample_attempt
     = Inr (PDict [], attempt_response_payload sample_attempt (PDict []) 0)"
  by (simp add: attempt_decoded_def py_json_loads_def sample_externals_def sample_attempt_def
      str_or_def utf8_length_def py_def)

text \<open>
  Claim C6. Building the delivery-attempt payload raises the data-integrity error when the
  attempt has no linked delivery, and also when the delivery lacks its payload or its webhook.
  With all three present the fixed part (the payload with its three placeholders) is built
  first, which decodes the stored request and response headers and encodes the response body;
  when that succeeds and the byte limit is smaller than the serialised size of the fixed part,
  the size error is raised. When a stored header text is not JSON or the body cannot be
  encoded there is no fixed part to measure, and the error of that step is raised whatever the
  limit.
\<close>

theorem generate_event_delivery_attempt_payload_errors:
  "(attempt_delivery attempt = None \<longrightarrow>
      generate_event_delivery_attempt_payload ext attempt next_retry bytes_limit
        = Inl (ValueError (AttemptNotAssigned (attempt_pk attempt))))
   \<and> (\<forall>delivery.
         attempt_delivery attempt = Some delivery
         \<and> (delivery_payload delivery = None \<or> delivery_webhook delivery = None) \<longrightarrow>
         generate_event_delivery_attempt_payload ext attempt next_retry bytes_limit
           = Inl (ValueError (DeliveryIncomplete (delivery_pk delivery))))
   \<and> (\<forall>delivery payload webhook req_headers response.
         attempt_delivery attempt = Some delivery
         \<and> delivery_payload delivery = Some payload
         \<and> delivery_webhook delivery = Some webhook
         \<and> attempt_decoded ext attempt = Inr (req_headers, response)
         \<and> bytes_limit
             < int (length (json_serialize ext
                              (PDict (attempt_initial_data ext attempt next_retry
                                        req_headers response delivery payload webhook))
                              False)) \<longrightarrow>
         generate_event_delivery_attempt_payload ext attempt next_retry bytes_limit
           = Inl (ValueError (PayloadTooBig bytes_limit)))
   \<and> (\<forall>delivery payload webhook e.
         attempt_delivery attempt = Some delivery
         \<and> delivery_payload delivery = Some payload
         \<and> delivery_webhook delivery = Some webhook
         \<and> attempt_decoded ext attempt = Inl e \<longrightarrow>
         generate_event_delivery_attempt_payload ext attempt next_retry bytes_limit = Inl e)"
  by (auto simp add: generate_event_delivery_attempt_payload_def Let_def split: option.splits)

theorem generate_event_delivery_attempt_payload_errors_witness:
  "generate_event_delivery_attempt_payload sample_externals
       (sample_attempt\<lparr>attempt_delivery := None\<rparr>) None 100
     = Inl (ValueError (AttemptNotAssigned 3))
   \<and> generate_event_delivery_attempt_payload sample_externals
       (sample_attempt\<lparr>attempt_delivery := Some (sample_delivery\<lparr>delivery_webhook := None\<rparr>)\<rparr>)
       None 100
     = Inl (ValueError (DeliveryIncomplete 5))
   \<and> generate_event_delivery_attempt_payload sample_externals sample_attempt None 7
     = Inl (ValueError (PayloadTooBig 7))
   \<and> generate_event_delivery_attempt_payload sample_externals
       (sample_attempt\<lparr>attempt_request_headers := Some (py ''not json'')\<rparr>) None (- 1)
     = Inl (ValueError (JSONDecodeError (py ''not json'')))"
proof -
  have a: "attempt_delivery (sample_attempt\<lparr>attempt_delivery := None\<rparr>) = None" by simp
  have b: "attempt_delivery
             (sample_attempt\<lparr>attempt_delivery := Some (sample_delivery\<lparr>delivery_webhook := None\<rparr>)\<rparr>)
             = Some (sample_delivery\<lparr>delivery_webhook := None\<rparr>)
           \<and> (delivery_payload (sample_delivery\<lparr>delivery_webhook := None\<rparr>) = None
                \<or> delivery_webhook (sample_delivery\<lparr>delivery_webhook := None\<rparr>) = None)"
    by simp
  have c: "attempt_delivery sample_attempt = Some sample_delivery
           \<and> delivery_payload sample_delivery = Some \<lparr>event_payload_payload = py ''[]''\<rparr>
           \<and> delivery_webhook sample_delivery = Some sample_webhook
           \<and> attempt_decoded sample_externals sample_attempt
               = Inr (PDict [], attempt_response_payload sample_attempt (PDict []) 0)
           \<and> 7 < int (length (json_serialize sample_externals
                              (PDict (attempt_initial_data sample_externals sample_attempt None
                                        (PDict [])
                                        (attempt_response_payload sample_attempt (PDict []) 0)
                                        sample_delivery \<lparr>event_payload_payload = py ''[]''\<rparr>
                                        sample_webhook)) False))"
    using sample_attempt_decoded
    by (simp add: sample_attempt_def sample_delivery_def json_serialize_def sample_externals_def)
  have d: "attempt_delivery (sample_attempt\<lparr>attempt_request_headers := Some (py ''not json'')\<rparr>)
             = Some sample_delivery
           \<and> delivery_payload sample_delivery = Some \<lparr>event_payload_payload = py ''[]''\<rparr>
           \<and> delivery_webhook sample_delivery = Some sample_webhook
           \<and> attempt_decoded sample_externals
               (sample_attempt\<lparr>attempt_request_headers := Some (py ''not json'')\<rparr>)
               = Inl (ValueError (JSONDecodeError (py ''not json'')))"
    by (simp add: sample_attempt_def sample_delivery_def attempt_decoded_def py_json_loads_def
        sample_externals_def str_or_def py_def)
  from generate_event_delivery_attempt_payload_errors
         [of "sample_attempt\<lparr>attempt_delivery := None\<rparr>" sample_externals None 100] a
  have 1: "generate_event_delivery_attempt_payload sample_externals
             (sample_attempt\<lparr>attempt_delivery := None\<rparr>) None 100
           = Inl (ValueError (AttemptNotAssigned 3))"
    by (simp add: sample_attempt_def)
  from generate_event_delivery_attempt_payload_errors
         [of "sample_attempt\<lparr>attempt_delivery := Some (sample_delivery\<lparr>delivery_webhook := None\<rparr>)\<rparr>"
             sample_externals None 100] b
  have 2: "generate_event_delivery_attempt_payload sample_externals
       (sample_attempt\<lparr>attempt_delivery := Some (sample_delivery\<lparr>delivery_webhook := None\<rparr>)\<rparr>)
       None 100
     = Inl (ValueError (DeliveryIncomplete 5))"
    by (simp add: sample_delivery_def)
  from generate_event_delivery_attempt_payload_errors
         [of sample_attempt sample_externals None 7] c
  have 3: "generate_event_delivery_attempt_payload sample_externals sample_attempt None 7
     = Inl (ValueError (PayloadTooBig 7))"
    by blast
  from generate_event_delivery_attempt_payload_errors
         [of "sample_attempt\<lparr>attempt_request_headers := Some (py ''not json'')\<rparr>"
             sample_externals None "- 1"] d
  have 4: "generate_event_delivery_attempt_payload sample_externals
       (sample_attempt\<lparr>attempt_request_headers := Some (py ''not json'')\<rparr>) None (- 1)
     = Inl (ValueError (JSONDecodeError (py ''not json'')))"
    by blast
  from 1 2 3 4 show ?thesis by blast
qed


text \<open>With room to spare the sample attempt is serialised.\<close>

lemma generate_event_delivery_attempt_payload_sample:
  "generate_event_delivery_attempt_payload sample_externals sample_attempt None 100
     = Inr (replicate 8 0x78)"
  by (simp add: generate_event_delivery_attempt_payload_def Let_def attempt_decoded_def
      sample_attempt_def sample_delivery_def sample_webhook_def sample_app_def
      json_serialize_def py_json_loads_def py_def utf8_length_def
      sample_externals_def attempt_data_def attempt_response_payload_def
      attempt_initial_data_def
      event_delivery_payload_def event_delivery_data_payload_def webhook_payload_def
      app_payload_def str_or_def opt_val_def)

text \<open>
  The stored texts are decoded and encoded in the order of the source: a response body with a
  lone surrogate stops the build before the size is tested, and a delivery payload that is not
  JSON stops it after the test.
\<close>

lemma generate_event_delivery_attempt_payload_sample_errors:
  "generate_event_delivery_attempt_payload sample_externals
       (sample_attempt\<lparr>attempt_response := Some [0xD800]\<rparr>) None 7
     = Inl (ValueError UnicodeEncodeError)"
  "generate_event_delivery_attempt_payload sample_externals
       (sample_attempt\<lparr>attempt_delivery :=
          Some (sample_delivery\<lparr>delivery_payload := Some \<lparr>event_payload_payload = py ''x''\<rparr>\<rparr>)\<rparr>)
       None 7
     = Inl (ValueError (PayloadTooBig 7))"
  "generate_event_delivery_attempt_payload sample_externals
       (sample_attempt\<lparr>attempt_delivery :=
          Some (sample_delivery\<lparr>delivery_payload := Some \<lparr>event_payload_payload = py ''x''\<rparr>\<rparr>)\<rparr>)
       None 100
     = Inl (ValueError (JSONDecodeError (py ''x'')))"
  by (simp_all add: generate_event_delivery_attempt_payload_def Let_def attempt_decoded_def
      sample_attempt_def sample_delivery_def sample_webhook_def sample_app_def
      json_serialize_def py_json_loads_def py_def utf8_length_def
      sample_externals_def attempt_data_def attempt_response_payload_def
      attempt_initial_data_def
      event_delivery_payload_def event_delivery_data_payload_def webhook_payload_def
      app_payload_def str_or_def opt_val_def)


section \<open>Properties of reporting\<close>

lemma emit_fields [simp]:
  "settings (emit e w) = settings w" "buffer (emit e w) = buffer w"
  "context_api_call (emit e w) = context_api_call w"
  "context_gql_operation (emit e w) = context_gql_operation w"
  "api_call_store (emit e w) = api_call_store w"
  "gql_operation_store (emit e w) = gql_operation_store w"
  "next_ref (emit e w) = next_ref w" "monotonic (emit e w) = monotonic w"
  "registry (emit e w) = registry w" "shared_cache (emit e w) = shared_cache w"
  "wall_clock (emit e w) = wall_clock w"
  "buffer_name (emit e w) = buffer_name w" "site_domain (emit e w) = site_domain w"
  "active_webhooks_exists_cache (emit e w) = active_webhooks_exists_cache w"
  "effects (emit e w) = effects w @ [e]"
  by (simp_all add: emit_def)

lemma active_webhooks_exists_fields [simp]:
  "settings (snd (active_webhooks_exists t w)) = settings w"
  "buffer (snd (active_webhooks_exists t w)) = buffer w"
  "context_api_call (snd (active_webhooks_exists t w)) = context_api_call w"
  "context_gql_operation (snd (active_webhooks_exists t w)) = context_gql_operation w"
  "api_call_store (snd (active_webhooks_exists t w)) = api_call_store w"
  "gql_operation_store (snd (active_webhooks_exists t w)) = gql_operation_store w"
  "next_ref (snd (active_webhooks_exists t w)) = next_ref w"
  "monotonic (snd (active_webhooks_exists t w)) = monotonic w"
  "wall_clock (snd (active_webhooks_exists t w)) = wall_clock w"
  "registry (snd (active_webhooks_exists t w)) = registry w"
  "buffer_name (snd (active_webhooks_exists t w)) = buffer_name w"
  "effects (snd (active_webhooks_exists t w))
     = effects w @ [GateCheck (fst (active_webhooks_exists t w))]"
  by (simp_all add: active_webhooks_exists_def get_observability_webhooks_def cache_get_def cache_set_def Let_def
      split: option.splits prod.splits if_splits)

lemma put_to_buffer_fields [simp]:
  "settings (put_to_buffer g w) = settings w"
  "context_api_call (put_to_buffer g w) = context_api_call w"
  "context_gql_operation (put_to_buffer g w) = context_gql_operation w"
  "api_call_store (put_to_buffer g w) = api_call_store w"
  "gql_operation_store (put_to_buffer g w) = gql_operation_store w"
  "next_ref (put_to_buffer g w) = next_ref w"
  "monotonic (put_to_buffer g w) = monotonic w"
  "registry (put_to_buffer g w) = registry w"
  "shared_cache (put_to_buffer g w) = shared_cache w"
  "wall_clock (put_to_buffer g w) = wall_clock w"
  "buffer_name (put_to_buffer g w) = buffer_name w"
  "active_webhooks_exists_cache (put_to_buffer g w) = active_webhooks_exists_cache w"
  "buffer (put_to_buffer g w) = buffer w @ (case g of Inr p \<Rightarrow> [p] | Inl e \<Rightarrow> [])"
  "effects (put_to_buffer g w)
     = effects w @ BuildPayload g # (case g of Inr p \<Rightarrow> [PutEvent p] | Inl e \<Rightarrow> [LogError EventDropped])"
  by (simp_all add: put_to_buffer_def split: sum.splits)

text \<open>The answer of the gate depends on the caches, the registry and the clock only.\<close>

lemma active_webhooks_exists_answer:
  assumes "buffer_name w' = buffer_name w"
    and "active_webhooks_exists_cache w' = active_webhooks_exists_cache w"
    and "monotonic w' = monotonic w" and "shared_cache w' = shared_cache w"
    and "wall_clock w' = wall_clock w"
    and "registry w' = registry w"
  shows "fst (active_webhooks_exists t w') = fst (active_webhooks_exists t w)"
  using assms
  by (simp add: active_webhooks_exists_def get_observability_webhooks_def cache_get_def cache_set_def Let_def
      split: option.splits prod.splits if_splits)

lemma ApiCall_report_with_response:
  assumes "api_call_store v self = Some a"
    and "\<not> apicall_reported a"
    and "apicall_response a = Some response"
    and "OBSERVABILITY_ACTIVE (settings v)"
    and "OBSERVABILITY_REPORT_ALL_API_CALLS (settings v) \<or> request_app (apicall_request a) \<noteq> None"
  shows "ApiCall_report ext self v
           = (let m = v\<lparr>api_call_store := (api_call_store v)(self \<mapsto> a\<lparr>apicall_reported := True\<rparr>)\<rparr>;
                  gate = active_webhooks_exists CACHE_TIMEOUT m
              in if fst gate then
                   put_to_buffer
                     (generate_api_call_payload ext (apicall_request a) response
                        (List.map_filter (gql_operation_store v) (apicall_gql_operations a))
                        (OBSERVABILITY_MAX_PAYLOAD_SIZE (settings v)))
                     (snd gate)
                 else snd gate)"
  using assms by (auto simp add: ApiCall_report_def Let_def case_prod_beta)

text \<open>
  Claim C10. A \<open>report\<close> that returns early because no response was attached only logs: the
  accumulator is left as it was, not marked reported. Once a response has been attached, the
  next \<open>report\<close> marks it, asks the gate once and, when the gate is open, builds the payload once
  and puts it into the buffer (or logs the drop when building fails); a further \<open>report\<close> changes
  nothing.
\<close>

theorem report_without_response_keeps_report:
  assumes "api_call_store w self = Some api_call"
    and "\<not> apicall_reported api_call"
    and "apicall_response api_call = None"
    and "OBSERVABILITY_ACTIVE (settings w)"
    and "OBSERVABILITY_REPORT_ALL_API_CALLS (settings w)
         \<or> request_app (apicall_request api_call) \<noteq> None"
  shows "(let w1 = ApiCall_report ext self w;
              w2 = set_response self (Some response) w1;
              w3 = ApiCall_report ext self w2;
              is_active = fst (active_webhooks_exists CACHE_TIMEOUT w);
              generated = generate_api_call_payload ext (apicall_request api_call) response
                            (List.map_filter (gql_operation_store w)
                               (apicall_gql_operations api_call))
                            (OBSERVABILITY_MAX_PAYLOAD_SIZE (settings w))
          in w1 = emit (LogError ResponseNotProvided) w
             \<and> api_call_store w1 self = Some api_call
             \<and> effects w3
                 = effects w1 @ GateCheck is_active
                     # (if is_active
                        then BuildPayload generated
                               # (case generated of
                                    Inr payload \<Rightarrow> [PutEvent payload]
                                  | Inl e \<Rightarrow> [LogError EventDropped])
                        else [])
             \<and> buffer w3
                 = buffer w @ (if is_active
                               then (case generated of Inr payload \<Rightarrow> [payload] | Inl e \<Rightarrow> [])
                               else [])
             \<and> (\<exists>reported. api_call_store w3 self = Some reported \<and> apicall_reported reported)
             \<and> ApiCall_report ext self w3 = w3)"
proof -
  define w1 where "w1 = ApiCall_report ext self w"
  define w2 where "w2 = set_response self (Some response) w1"
  define w3 where "w3 = ApiCall_report ext self w2"
  define is_active where "is_active = fst (active_webhooks_exists CACHE_TIMEOUT w)"
  define generated where
    "generated = generate_api_call_payload ext (apicall_request api_call) response
                   (List.map_filter (gql_operation_store w) (apicall_gql_operations api_call))
                   (OBSERVABILITY_MAX_PAYLOAD_SIZE (settings w))"
  define attached where "attached = api_call\<lparr>apicall_response := Some response\<rparr>"
  define m where
    "m = w2\<lparr>api_call_store := (api_call_store w2)(self \<mapsto> attached\<lparr>apicall_reported := True\<rparr>)\<rparr>"
  define gate where "gate = active_webhooks_exists CACHE_TIMEOUT m"
  have 1: "w1 = emit (LogError ResponseNotProvided) w"
    using assms by (auto simp add: w1_def ApiCall_report_def Let_def)
  have 2: "w2 = w1\<lparr>api_call_store := (api_call_store w)(self \<mapsto> attached)\<rparr>"
    using assms by (simp add: w2_def 1 set_response_def attached_def)
  have fields2: "api_call_store w2 self = Some attached" "settings w2 = settings w"
    "gql_operation_store w2 = gql_operation_store w" "effects w2 = effects w1"
    "buffer w2 = buffer w"
    by (simp_all add: 2 1)
  have answer: "fst gate = is_active"
    unfolding gate_def is_active_def
    by (rule active_webhooks_exists_answer) (simp_all add: m_def 2 1)
  have "w3 = (if fst gate then put_to_buffer generated (snd gate) else snd gate)"
    unfolding w3_def gate_def m_def generated_def
    using assms fields2
    by (subst ApiCall_report_with_response[where a = attached and response = response])
      (simp_all add: Let_def attached_def)
  then have 3: "w3 = (if is_active then put_to_buffer generated (snd gate) else snd gate)"
    by (simp only: answer)
  have gate_fields: "effects (snd gate) = effects w1 @ [GateCheck is_active]"
    "buffer (snd gate) = buffer w"
    "api_call_store (snd gate) self = Some (attached\<lparr>apicall_reported := True\<rparr>)"
    using answer by (simp_all add: gate_def m_def fields2)
  have e3: "effects w3
              = effects w1 @ GateCheck is_active
                  # (if is_active
                     then BuildPayload generated
                            # (case generated of
                                 Inr payload \<Rightarrow> [PutEvent payload]
                               | Inl e \<Rightarrow> [LogError EventDropped])
                     else [])"
    by (simp add: 3 gate_fields)
  have b3: "buffer w3
              = buffer w @ (if is_active
                            then (case generated of Inr payload \<Rightarrow> [payload] | Inl e \<Rightarrow> [])
                            else [])"
    by (simp add: 3 gate_fields)
  have s3: "api_call_store w3 self = Some (attached\<lparr>apicall_reported := True\<rparr>)"
    by (simp add: 3 gate_fields)
  then have again: "ApiCall_report ext self w3 = w3"
    by (simp add: ApiCall_report_def)
  from assms(1) have s1: "api_call_store w1 self = Some api_call" by (simp add: 1)
  from s3 have "\<exists>reported. api_call_store w3 self = Some reported \<and> apicall_reported reported"
    by simp
  with 1 s1 e3 b3 again show ?thesis
    unfolding Let_def w1_def [symmetric] w2_def [symmetric] w3_def [symmetric]
      is_active_def [symmetric] generated_def [symmetric]
    by blast
qed


lemma sample_generate_api_call_payload:
  "generate_api_call_payload sample_externals sample_request sample_response [] 100
     = Inr (replicate 8 0x78)"
  by (simp add: generate_api_call_payload_def api_call_payload_def api_call_initial_payload_def
      request_content_length_def sample_request_def sample_response_def Let_def
      json_serialize_def sample_externals_def serialize_gql_operation_results_def
      GQL_OPERATION_PLACEHOLDER_SIZE_def api_call_request_payload_def
      api_call_response_payload_def api_call_gql_operations_def headers_dict_def)

lemma listening_gate_answer:
  "fst (active_webhooks_exists CACHE_TIMEOUT pending_world)"
  "fst (active_webhooks_exists CACHE_TIMEOUT listening_world)"
  by (simp_all add: active_webhooks_exists_def get_observability_webhooks_def cache_get_def cache_set_def Let_def
      pending_world_def listening_world_def sample_world_def)

theorem report_without_response_keeps_report_witness:
  "api_call_store pending_world 0 = Some (ApiCall_init sample_request)
   \<and> \<not> apicall_reported (ApiCall_init sample_request)
   \<and> apicall_response (ApiCall_init sample_request) = None
   \<and> OBSERVABILITY_ACTIVE (settings pending_world)
   \<and> buffer (ApiCall_report sample_externals 0 pending_world) = []
   \<and> buffer (ApiCall_report sample_externals 0
               (set_response 0 (Some sample_response)
                  (ApiCall_report sample_externals 0 pending_world)))
       = [replicate 8 0x78]"
proof -
  have h: "api_call_store pending_world 0 = Some (ApiCall_init sample_request)"
    "\<not> apicall_reported (ApiCall_init sample_request)"
    "apicall_response (ApiCall_init sample_request) = None"
    "OBSERVABILITY_ACTIVE (settings pending_world)"
    "OBSERVABILITY_REPORT_ALL_API_CALLS (settings pending_world)
       \<or> request_app (apicall_request (ApiCall_init sample_request)) \<noteq> None"
    by (simp_all add: pending_world_def listening_world_def sample_world_def ApiCall_init_def)
  have g: "generate_api_call_payload sample_externals
             (apicall_request (ApiCall_init sample_request)) sample_response
             (List.map_filter (gql_operation_store pending_world)
                (apicall_gql_operations (ApiCall_init sample_request)))
             (OBSERVABILITY_MAX_PAYLOAD_SIZE (settings pending_world))
           = Inr (replicate 8 0x78)"
    using sample_generate_api_call_payload
    by (simp add: pending_world_def listening_world_def sample_world_def ApiCall_init_def
        List.map_filter_simps)
  have b: "buffer pending_world = []"
    by (simp add: pending_world_def listening_world_def sample_world_def)
  note T = report_without_response_keeps_report
             [OF h, of sample_externals sample_response, unfolded Let_def]
  from T have b1: "ApiCall_report sample_externals 0 pending_world
                     = emit (LogError ResponseNotProvided) pending_world"
    by blast
  from T have b3:
    "buffer (ApiCall_report sample_externals 0
               (set_response 0 (Some sample_response)
                  (ApiCall_report sample_externals 0 pending_world)))
       = buffer pending_world
           @ (if fst (active_webhooks_exists CACHE_TIMEOUT pending_world)
              then (case generate_api_call_payload sample_externals
                           (apicall_request (ApiCall_init sample_request)) sample_response
                           (List.map_filter (gql_operation_store pending_world)
                              (apicall_gql_operations (ApiCall_init sample_request)))
                           (OBSERVABILITY_MAX_PAYLOAD_SIZE (settings pending_world)) of
                      Inr payload \<Rightarrow> [payload]
                    | Inl e \<Rightarrow> [])
              else [])"
    by blast
  have c1: "buffer (ApiCall_report sample_externals 0 pending_world) = []"
    unfolding b1 by (simp add: b emit_def)
  have c3: "buffer (ApiCall_report sample_externals 0
               (set_response 0 (Some sample_response)
                  (ApiCall_report sample_externals 0 pending_world)))
            = [replicate 8 0x78]"
    unfolding b3 by (simp add: g b listening_gate_answer)
  from h c1 c3 show ?thesis by blast
qed

text \<open>
  Claim C8, run on the code. The claim reads: with an attempt that has no linked delivery,
  \<open>report_event_delivery_attempt\<close> logs the drop and does not raise, and the gate check, the
  payload build and the buffer push are performed only when a delivery is present. The branch
  that logs has no \<open>return\<close>: with a receiver registered, the gate is asked and the payload
  generator is called all the same; it raises, and \<open>put_to_buffer\<close> logs a second drop. Nothing
  is pushed and nothing is raised.
\<close>

theorem report_event_delivery_attempt_without_delivery_runs_gate_and_build:
  "effects (report_event_delivery_attempt sample_externals
              (sample_attempt\<lparr>attempt_delivery := None\<rparr>) None listening_world)
     = [LogError (AttemptNotAssignedToDelivery 3),
        GateCheck True,
        BuildPayload (Inl (ValueError (AttemptNotAssigned 3))),
        LogError EventDropped]
   \<and> buffer (report_event_delivery_attempt sample_externals
               (sample_attempt\<lparr>attempt_delivery := None\<rparr>) None listening_world) = []"
proof -
  define a where "a = sample_attempt\<lparr>attempt_delivery := None\<rparr>"
  define w where "w = emit (LogError (AttemptNotAssignedToDelivery 3)) listening_world"
  have a: "attempt_delivery a = None" "attempt_pk a = 3"
    by (simp_all add: a_def sample_attempt_def)
  have s: "OBSERVABILITY_ACTIVE (settings listening_world)"
    "effects listening_world = []" "buffer listening_world = []"
    by (simp_all add: listening_world_def sample_world_def)
  have g: "generate_event_delivery_attempt_payload sample_externals a None n
             = Inl (ValueError (AttemptNotAssigned 3))" for n
    by (simp add: generate_event_delivery_attempt_payload_def a)
  have gate: "fst (active_webhooks_exists CACHE_TIMEOUT w)"
    using listening_gate_answer(2)
      active_webhooks_exists_answer[of w listening_world CACHE_TIMEOUT]
    by (simp add: w_def)
  have "report_event_delivery_attempt sample_externals a None listening_world
          = put_to_buffer (Inl (ValueError (AttemptNotAssigned 3)))
              (snd (active_webhooks_exists CACHE_TIMEOUT w))"
    using gate s(1)
    by (simp add: report_event_delivery_attempt_def Let_def case_prod_beta g a w_def)
  then show ?thesis
    unfolding a_def [symmetric]
    using gate s by (simp add: w_def)
qed


section \<open>Properties of the gate\<close>

lemma builds_and_puts_append:
  "builds_and_puts (xs @ ys) = builds_and_puts xs @ builds_and_puts ys"
  by (induction xs rule: builds_and_puts.induct) simp_all

lemma gate_closed_cong:
  assumes "buffer_name w' = buffer_name w"
    and "active_webhooks_exists_cache w' = active_webhooks_exists_cache w"
    and "monotonic w' = monotonic w" and "shared_cache w' = shared_cache w"
    and "wall_clock w' = wall_clock w"
    and "registry w' = registry w"
  shows "gate_closed w' = gate_closed w"
  using assms
  by (auto simp add: gate_closed_def endpoint_list_empty_def gate_entry_fresh_and_active_def
      cache_get_def split: option.splits)

lemma active_webhooks_exists_closed:
  assumes "gate_closed w"
  shows "\<not> fst (active_webhooks_exists CACHE_TIMEOUT w)"
    and "gate_closed (snd (active_webhooks_exists CACHE_TIMEOUT w))"
  using assms
  by (auto simp add: gate_closed_def endpoint_list_empty_def gate_entry_fresh_and_active_def
      active_webhooks_exists_def get_observability_webhooks_def cache_get_def cache_set_def Let_def emit_def
      split: option.splits prod.splits if_splits)

lemma ApiCall_report_closed:
  assumes "gate_closed w"
  shows "gate_closed (ApiCall_report ext self w)
         \<and> buffer (ApiCall_report ext self w) = buffer w
         \<and> builds_and_puts (effects (ApiCall_report ext self w)) = builds_and_puts (effects w)"
proof (cases "\<exists>a response. api_call_store w self = Some a \<and> \<not> apicall_reported a
                \<and> apicall_response a = Some response \<and> OBSERVABILITY_ACTIVE (settings w)
                \<and> (OBSERVABILITY_REPORT_ALL_API_CALLS (settings w)
                     \<or> request_app (apicall_request a) \<noteq> None)")
  case True
  then obtain a response where a: "api_call_store w self = Some a" "\<not> apicall_reported a"
    "apicall_response a = Some response" "OBSERVABILITY_ACTIVE (settings w)"
    "OBSERVABILITY_REPORT_ALL_API_CALLS (settings w) \<or> request_app (apicall_request a) \<noteq> None"
    by blast
  define m where
    "m = w\<lparr>api_call_store := (api_call_store w)(self \<mapsto> a\<lparr>apicall_reported := True\<rparr>)\<rparr>"
  have m: "gate_closed m" "buffer m = buffer w" "effects m = effects w"
    using assms gate_closed_cong[of m w] by (simp_all add: m_def)
  from active_webhooks_exists_closed[OF m(1)]
  have "ApiCall_report ext self w = snd (active_webhooks_exists CACHE_TIMEOUT m)"
    using ApiCall_report_with_response[OF a, of ext] by (simp add: Let_def m_def)
  with active_webhooks_exists_closed[OF m(1)] m show ?thesis
    by (simp add: builds_and_puts_append)
next
  case False
  then have "ApiCall_report ext self w = w
             \<or> ApiCall_report ext self w = emit (LogError ResponseNotProvided) w"
    by (auto simp add: ApiCall_report_def Let_def split: option.splits)
  with assms gate_closed_cong[of "emit (LogError ResponseNotProvided) w" w] show ?thesis
    by (auto simp add: builds_and_puts_append)
qed

lemma report_event_delivery_attempt_closed:
  assumes "gate_closed w"
  shows "gate_closed (report_event_delivery_attempt ext attempt next_retry w)
         \<and> buffer (report_event_delivery_attempt ext attempt next_retry w) = buffer w
         \<and> builds_and_puts (effects (report_event_delivery_attempt ext attempt next_retry w))
             = builds_and_puts (effects w)"
proof (cases "OBSERVABILITY_ACTIVE (settings w)")
  case False
  with assms show ?thesis by (simp add: report_event_delivery_attempt_def)
next
  case True
  define m where
    "m = (if attempt_delivery attempt = None
          then emit (LogError (AttemptNotAssignedToDelivery (attempt_pk attempt))) w else w)"
  have m: "gate_closed m" "buffer m = buffer w"
    "builds_and_puts (effects m) = builds_and_puts (effects w)"
    using assms gate_closed_cong[of m w] by (simp_all add: m_def builds_and_puts_append)
  from active_webhooks_exists_closed[OF m(1)] True
  have "report_event_delivery_attempt ext attempt next_retry w
          = snd (active_webhooks_exists CACHE_TIMEOUT m)"
    by (simp add: report_event_delivery_attempt_def Let_def case_prod_beta m_def)
  with active_webhooks_exists_closed[OF m(1)] m show ?thesis
    by (simp add: builds_and_puts_append)
qed

lemma elapse_closed:
  assumes "gate_closed w"
  shows "gate_closed (elapse seconds w)"
    and "buffer (elapse seconds w) = buffer w"
    and "effects (elapse seconds w) = effects w"
  using assms
  by (auto simp add: gate_closed_def endpoint_list_empty_def gate_entry_fresh_and_active_def
      cache_get_def elapse_def split: option.splits if_splits)

text \<open>
  Claim C4, as amended. The claim reads: whenever the cached/registered endpoint list is empty,
  reporting any number of events builds no payload and pushes nothing. The gate is answered
  from the process-local cache while its entry is within its lifetime, so the claim holds when
  that cache does not hold a fresh entry saying that receivers exist. The cached endpoint list
  expires and is then read again from the registry, so both have to be empty: no receiver is
  registered, and the shared cache holds no unexpired list or an empty one. Then, however many
  events are reported and however much time passes in between, no payload is built and the
  buffer stays as it is.
\<close>

theorem closed_gate_builds_and_pushes_nothing:
  assumes "endpoint_list_empty w" and "\<not> gate_entry_fresh_and_active w"
  shows "buffer (report_events ext steps w) = buffer w
         \<and> builds_and_puts (effects (report_events ext steps w)) = builds_and_puts (effects w)"
proof -
  have "gate_closed w \<Longrightarrow> ?thesis"
  proof (induction steps arbitrary: w)
    case Nil
    then show ?case by simp
  next
    case (Cons step steps)
    show ?case
    proof (cases step)
      case (ReportApiCall self)
      with Cons.IH[of "ApiCall_report ext self w"] ApiCall_report_closed[OF Cons.prems, of ext self]
      show ?thesis by simp
    next
      case (ReportEventDeliveryAttempt attempt next_retry)
      with Cons.IH[of "report_event_delivery_attempt ext attempt next_retry w"]
        report_event_delivery_attempt_closed[OF Cons.prems, of ext attempt next_retry]
      show ?thesis by simp
    next
      case (Elapse seconds)
      with Cons.IH[of "elapse seconds w"] elapse_closed[OF Cons.prems, of seconds]
      show ?thesis by simp
    qed
  qed
  with assms show ?thesis by (simp add: gate_closed_def)
qed

theorem closed_gate_builds_and_pushes_nothing_witness:
  "endpoint_list_empty sample_world \<and> \<not> gate_entry_fresh_and_active sample_world
   \<and> buffer (report_events sample_externals
               [ReportEventDeliveryAttempt sample_attempt None, Elapse 200,
                ReportEventDeliveryAttempt sample_attempt None] sample_world) = []"
proof -
  have h: "endpoint_list_empty sample_world" "\<not> gate_entry_fresh_and_active sample_world"
    by (simp_all add: endpoint_list_empty_def cache_get_def gate_entry_fresh_and_active_def
        sample_world_def)
  have "buffer sample_world = []" by (simp add: sample_world_def)
  with closed_gate_builds_and_pushes_nothing [OF h, of sample_externals
         "[ReportEventDeliveryAttempt sample_attempt None, Elapse 200,
           ReportEventDeliveryAttempt sample_attempt None]"] h
  show ?thesis by simp
qed

text \<open>
  Claim C4 as stated fails: the endpoint list is empty, the registered one and the cached one,
  but the gate was answered a minute ago when a receiver existed, and the report of one API
  call builds a payload and pushes it.
\<close>

theorem empty_endpoint_list_stale_gate_counterexample:
  "endpoint_list_empty stale_gate_world
   \<and> buffer stale_gate_world = []
   \<and> buffer (report_events sample_externals [ReportApiCall 0] stale_gate_world)
       = [replicate 8 0x78]"
proof -
  define a where
    "a = (ApiCall_init sample_request)\<lparr>apicall_response := Some sample_response\<rparr>"
  have e: "endpoint_list_empty stale_gate_world" "buffer stale_gate_world = []"
    by (simp_all add: endpoint_list_empty_def cache_get_def stale_gate_world_def
        sample_world_def)
  have fields: "apicall_request a = sample_request" "apicall_gql_operations a = []"
    "OBSERVABILITY_MAX_PAYLOAD_SIZE (settings stale_gate_world) = 100"
    by (simp_all add: a_def ApiCall_init_def stale_gate_world_def sample_world_def)
  have h: "api_call_store stale_gate_world 0 = Some a"
    "\<not> apicall_reported a"
    "apicall_response a = Some sample_response"
    "OBSERVABILITY_ACTIVE (settings stale_gate_world)"
    "OBSERVABILITY_REPORT_ALL_API_CALLS (settings stale_gate_world)
       \<or> request_app (apicall_request a) \<noteq> None"
    by (simp_all add: a_def stale_gate_world_def sample_world_def ApiCall_init_def)
  define m where
    "m = stale_gate_world
           \<lparr>api_call_store := (api_call_store stale_gate_world)
              (0 \<mapsto> a\<lparr>apicall_reported := True\<rparr>)\<rparr>"
  have gate: "fst (active_webhooks_exists CACHE_TIMEOUT m)"
    by (simp add: m_def active_webhooks_exists_def Let_def stale_gate_world_def sample_world_def
        CACHE_TIMEOUT_def)
  have "ApiCall_report sample_externals 0 stale_gate_world
          = put_to_buffer (Inr (replicate 8 0x78)) (snd (active_webhooks_exists CACHE_TIMEOUT m))"
    unfolding ApiCall_report_with_response[OF h, of sample_externals] Let_def m_def [symmetric]
    using gate
    by (simp add: fields List.map_filter_simps sample_generate_api_call_payload)
  then have "buffer (ApiCall_report sample_externals 0 stale_gate_world) = [replicate 8 0x78]"
    using e by (simp add: m_def)
  with e show ?thesis by simp
qed

text \<open>
  The cached endpoint list has a lifetime. While an empty list is cached, a receiver that has
  been registered in the meantime is not seen and nothing is pushed; once the cached list has
  expired, the registry is read again and the report is pushed.
\<close>

lemma expired_endpoint_list_is_read_again:
  "buffer (report_events sample_externals [ReportApiCall 0] late_registration_world) = []"
  "buffer (report_events sample_externals [Elapse 200, ReportApiCall 0] late_registration_world)
     = [replicate 8 0x78]"
  by (simp_all add: late_registration_world_def sample_world_def ApiCall_report_def Let_def
      ApiCall_init_def active_webhooks_exists_def get_observability_webhooks_def cache_get_def
      cache_set_def elapse_def CACHE_TIMEOUT_def emit_def put_to_buffer_def
      List.map_filter_simps sample_generate_api_call_payload)


section \<open>Properties of the scopes\<close>




lemma gql_operations_of_cong:
  "api_call_store w' = api_call_store w \<Longrightarrow> gql_operations_of w' r = gql_operations_of w r"
  by (simp add: gql_operations_of_def)






























text \<open>
  The nest of the test suite, run: three entries of an API-call scope inside one another, then
  a scope of its own. The three entries yield the accumulator 0, the later scope the
  accumulator 1, and each of the two is finalised once.
\<close>

lemma run_nested_then_separate:
  "\<exists>w'. run sample_externals
          (Seq (ApiCallScope sample_request
                  (ApiCallScope sample_request (ApiCallScope sample_request Skip None) None)
                  None)
               (ApiCallScope sample_request Skip None)) sample_world
        = (None, [ApiCallYielded 0 True, ApiCallYielded 0 False, ApiCallYielded 0 False,
                  ApiCallYielded 1 True], w')
        \<and> finalized (effects w') = [0, 1]"
  by (simp add: report_api_call_enter_def report_api_call_exit_def set_response_def
      ApiCall_report_def ApiCall_init_def emit_def sample_world_def sample_request_def Let_def)

text \<open>
  The same when the two scopes are separate runs on one thread: the state that the raising
  run leaves is the state in which the next request starts.
\<close>

lemma run_after_raising_run:
  "fst (run sample_externals (ApiCallScope sample_request (Raise (ValueError NoMessage)) None)
          sample_world) = Some (ValueError NoMessage)"
  "fst (snd (run sample_externals (ApiCallScope sample_request Skip (Some sample_response))
          (snd (snd (run sample_externals
                       (ApiCallScope sample_request (Raise (ValueError NoMessage)) None)
                       sample_world)))))
     = [ApiCallYielded 0 False]"
  by (simp_all add: report_api_call_enter_def report_api_call_exit_def set_response_def
      ApiCall_init_def sample_world_def Let_def)

end
